theory Spec2Isabelle
  imports Complex_Main
begin

section \<open>Common conventions\<close>

text \<open>
  The settlement pipeline of the SPECIES marketplace is embedded service by service.
  A TypeScript \<^verbatim>\<open>number\<close> that carries an amount and is only copied or added is an
  exact rational; where amounts are compared after arithmetic (the Validator) the
  arithmetic of the machine is an argument.  A point in time is an integer count of
  milliseconds, an optional field is an \<open>option\<close>, and a string is a list of bytes.  Every call of \<^verbatim>\<open>new Date()\<close> and of
  \<^verbatim>\<open>generateUUID()\<close> is an explicit argument of the function that makes it.
\<close>

type_synonym number = rat

datatype Intent = BUY_TREASURY | BUY_MARKET | SELL_MARKET | TRANSFER

text \<open>JavaScript truthiness of an optional string: absent and the empty string are falsy.\<close>

fun truthy :: "string option \<Rightarrow> bool" where
  "truthy None = False"
| "truthy (Some s) = (s \<noteq> [])"

text \<open>
  \<^verbatim>\<open>String.prototype.toLowerCase\<close> on the ASCII range, where the letters of
  \<^verbatim>\<open>'treasury'\<close> live; bytes of a multi-byte character are left as they are.
\<close>

definition toLowerChar :: "char \<Rightarrow> char" where
  "toLowerChar c =
     (let n = (of_char c :: nat) in if 65 \<le> n \<and> n \<le> 90 then char_of (n + 32) else c)"

definition toLowerCase :: "string \<Rightarrow> string" where
  "toLowerCase s = map toLowerChar s"

fun startsWith :: "string \<Rightarrow> string \<Rightarrow> bool" where
  "startsWith s [] = True"
| "startsWith [] (n # ns) = False"
| "startsWith (c # cs) (n # ns) = (c = n \<and> startsWith cs ns)"

text \<open>\<^verbatim>\<open>String.prototype.includes\<close>: the needle occurs at some position of the string.\<close>

fun includes_str :: "string \<Rightarrow> string \<Rightarrow> bool" where
  "includes_str [] needle = (needle = [])"
| "includes_str (c # cs) needle = (startsWith (c # cs) needle \<or> includes_str cs needle)"

section \<open>Classifier (SpecCards/04\_Classifier.ts)\<close>

datatype UserRole = TRADER | MARKET_MAKER | TREASURY | LIQUIDITY_PROVIDER | MATCH_ME | ADMIN

record PutProceeds =
  pp_usdtAddress :: string
  pp_chain :: string

record ClassifierEvent =
  ce_eventId :: string
  ce_from :: string
  ce_to :: string
  ce_amount :: number
  ce_listingId :: "string option"
  ce_putProceeds :: "PutProceeds option"

record ClassifierInput =
  ci_event :: ClassifierEvent
  ci_userRegistry :: "(string \<rightharpoonup> UserRole) option"
  ci_ts :: string

record ClassifierMetadata =
  md_fromRole :: "UserRole option"
  md_toRole :: "UserRole option"
  md_classificationReason :: string

record OrderClassified =
  oc_topic :: string
  oc_eventId :: string
  oc_intent :: Intent
  oc_amount :: number
  oc_listingId :: "string option"
  oc_metadata :: ClassifierMetadata
  oc_ts :: string

datatype Mode = BUY | SELL | MODE_TRANSFER

record OrderValidated =
  ov_topic :: string
  ov_eventId :: string
  ov_from :: string
  ov_to :: string
  ov_amount :: number
  ov_mode :: Mode
  ov_prepaid :: bool
  ov_evidence :: "string option"
  ov_ts :: string

text \<open>\<^verbatim>\<open>userRegistry?.get(k)\<close>: undefined when there is no registry or no entry.\<close>

definition registryGet :: "(string \<rightharpoonup> UserRole) option \<Rightarrow> string \<Rightarrow> UserRole option" where
  "registryGet registry k = (case registry of None \<Rightarrow> None | Some m \<Rightarrow> m k)"

definition isTreasuryDestination :: "string \<Rightarrow> (string \<rightharpoonup> UserRole) option \<Rightarrow> bool" where
  "isTreasuryDestination to registry =
     (if includes_str (toLowerCase to) ''treasury'' then True
      else if registryGet registry to = Some TREASURY then True
      else False)"

text \<open>
  The decision tree of \<^verbatim>\<open>decide\<close>, as the pair of the two variables it assigns
  (\<^verbatim>\<open>intent\<close>, \<^verbatim>\<open>classificationReason\<close>).
\<close>

definition decisionTree :: "ClassifierInput \<Rightarrow> Intent \<times> string" where
  "decisionTree input =
     (let event = ci_event input; userRegistry = ci_userRegistry input in
      if truthy (ce_listingId event) then (BUY_MARKET, ''Explicit listing ID provided'')
      else if isTreasuryDestination (ce_to event) userRegistry
        then (BUY_TREASURY, ''Destination is treasury'')
      else if ce_putProceeds event \<noteq> None then (SELL_MARKET, ''Put proceeds specified'')
      else (TRANSFER, ''P2P transfer (default)''))"

text \<open>\<^verbatim>\<open>decide\<close>; \<open>now\<close> is the value of \<^verbatim>\<open>new Date().toISOString()\<close> at the call.\<close>

definition decide :: "ClassifierInput \<Rightarrow> string \<Rightarrow> OrderClassified" where
  "decide input now =
     (let event = ci_event input; userRegistry = ci_userRegistry input;
          (intent, classificationReason) = decisionTree input in
      \<lparr> oc_topic = ''order.classified'',
        oc_eventId = ce_eventId event,
        oc_intent = intent,
        oc_amount = ce_amount event,
        oc_listingId = ce_listingId event,
        oc_metadata =
          \<lparr> md_fromRole = registryGet userRegistry (ce_from event),
            md_toRole = registryGet userRegistry (ce_to event),
            md_classificationReason = classificationReason \<rparr>,
        oc_ts = now \<rparr>)"

text \<open>
  \<^verbatim>\<open>processEvent\<close>: the result is the message handed to \<^verbatim>\<open>eventBus.publish\<close>.
  \<open>now_input\<close> is the clock read for the input's \<^verbatim>\<open>ts\<close>, \<open>now_decide\<close> the one read
  inside \<^verbatim>\<open>decide\<close>.
\<close>

definition processEventInput :: "OrderValidated \<Rightarrow> string \<Rightarrow> ClassifierInput" where
  "processEventInput event now_input =
     \<lparr> ci_event =
         \<lparr> ce_eventId = ov_eventId event,
           ce_from = ov_from event,
           ce_to = ov_to event,
           ce_amount = ov_amount event,
           ce_listingId = None,
           ce_putProceeds = None \<rparr>,
       ci_userRegistry = None,
       ci_ts = now_input \<rparr>"

definition processEvent :: "OrderValidated \<Rightarrow> string \<Rightarrow> string \<Rightarrow> OrderClassified" where
  "processEvent event now_input now_decide = decide (processEventInput event now_input) now_decide"

section \<open>Errors\<close>

text \<open>A thrown JavaScript \<^verbatim>\<open>Error\<close> (or a rejected promise), with its message.\<close>

datatype error = Error string

section \<open>Matching Service (SpecCard: Matching Service)\<close>

record MatchingOrderClassified =
  moc_topic :: string
  moc_eventId :: string
  moc_intent :: Intent
  moc_amount :: number
  moc_listingId :: "string option"
  moc_from :: string
  moc_to :: string
  moc_ts :: string

datatype FillStatus = PENDING | RESERVED | CONFIRMED | EXPIRED

record Fill =
  matchId :: string
  eventId :: string
  buyerId :: string
  buyerVault :: "string option"
  sellerId :: string
  sellerVault :: "string option"
  fillAmount :: number
  listingId :: "string option"
  requiresBuyerProof :: bool
  status :: FillStatus
  createdAt :: int
  expiresAt :: int

text \<open>What \<^verbatim>\<open>registry.getUser\<close> resolves to: a user's id and vault.\<close>

record RegistryUser =
  ru_onliId :: string
  ru_vaultId :: "string option"

text \<open>
  \<^verbatim>\<open>createTreasuryFill\<close>.  The registry is an argument (\<^verbatim>\<open>getUser\<close> may reject);
  \<open>uuid\<close> is the value of \<^verbatim>\<open>generateUUID()\<close>, \<open>now_created\<close> that of \<^verbatim>\<open>new Date()\<close>
  and \<open>now_expiry\<close> that of \<^verbatim>\<open>Date.now()\<close>, in milliseconds.
\<close>

definition createTreasuryFill ::
  "(string \<Rightarrow> error + RegistryUser) \<Rightarrow> MatchingOrderClassified \<Rightarrow> string \<Rightarrow> int \<Rightarrow> int
     \<Rightarrow> error + Fill list" where
  "createTreasuryFill getUser event uuid now_created now_expiry =
     (case getUser (moc_from event) of
        Inl e \<Rightarrow> Inl e
      | Inr buyer \<Rightarrow>
          Inr [\<lparr> matchId = uuid,
                 eventId = moc_eventId event,
                 buyerId = ru_onliId buyer,
                 buyerVault = ru_vaultId buyer,
                 sellerId = ''usr-treasury-vault-system'',
                 sellerVault = Some ''treasury-vault'',
                 fillAmount = moc_amount event,
                 listingId = None,
                 requiresBuyerProof = False,
                 status = RESERVED,
                 createdAt = now_created,
                 expiresAt = now_expiry + 5 * 60 * 1000 \<rparr>])"

text \<open>
  \<^verbatim>\<open>createFills\<close>.  The three handlers whose bodies the service card does not give
  (\<^verbatim>\<open>createMarketFills\<close>, \<^verbatim>\<open>createListing\<close>, \<^verbatim>\<open>createTransferFill\<close>) are arguments.
\<close>

definition createFills ::
  "(string \<Rightarrow> error + RegistryUser)
     \<Rightarrow> (MatchingOrderClassified \<Rightarrow> error + Fill list)
     \<Rightarrow> (MatchingOrderClassified \<Rightarrow> error + Fill list)
     \<Rightarrow> (MatchingOrderClassified \<Rightarrow> error + Fill list)
     \<Rightarrow> MatchingOrderClassified \<Rightarrow> string \<Rightarrow> int \<Rightarrow> int \<Rightarrow> error + Fill list" where
  "createFills getUser createMarketFills createListing createTransferFill
     event uuid now_created now_expiry =
     (case moc_intent event of
        BUY_TREASURY \<Rightarrow> createTreasuryFill getUser event uuid now_created now_expiry
      | BUY_MARKET \<Rightarrow> createMarketFills event
      | SELL_MARKET \<Rightarrow> createListing event
      | TRANSFER \<Rightarrow> createTransferFill event)"

text \<open>
  A reservation lease, in the words of the specification: the fill is held in the
  \<open>RESERVED\<close> state until an expiry later than its creation.
\<close>

definition carriesReservationLease :: "Fill \<Rightarrow> bool" where
  "carriesReservationLease f = (status f = RESERVED \<and> createdAt f < expiresAt f)"

section \<open>Cashier (SpecCards/06\_Cashier.ts)\<close>

datatype Currency = USDT | SPECIES

datatype AccountKind =
    USDT_cash | USDT_settlement_payable | USDT_fee_income
  | SPECIES_balance | SPECIES_inventory | SPECIES_in_transit

datatype Side = Dr | Cr

record Account =
  acc_onliId :: string
  acc_kind :: AccountKind

record JournalLine =
  jl_account :: Account
  jl_currency :: Currency
  jl_amount :: number
  jl_side :: Side

record PaymentConfirmed =
  pc_topic :: string
  pc_eventId :: string
  pc_matchId :: string
  pc_buyerId :: string
  pc_sellerId :: string
  pc_intent :: Intent
  pc_amount :: number
  pc_usdtAmount :: number
  pc_feeUsdt :: "number option"
  pc_provider :: string
  pc_providerPaymentId :: "string option"
  pc_confirmations :: int
  pc_ts :: string

text \<open>
  The description of a posting is the template \<^verbatim>\<open>`${event.intent} - ${event.amount} SPECIES`\<close>;
  it is kept as the pair of the two interpolated values.
\<close>

record JournalPost =
  jp_postingId :: string
  jp_eventId :: string
  jp_matchId :: string
  jp_lines :: "JournalLine list"
  jp_postedAt :: int
  jp_description :: "Intent \<times> number"

record LedgerPosted =
  lp_topic :: string
  lp_eventId :: string
  lp_matchId :: string
  lp_postingId :: string
  lp_accountsAffected :: "string list"
  lp_totalDebit :: number
  lp_totalCredit :: number
  lp_ts :: string

text \<open>
  \<^verbatim>\<open>createJournalEntries\<close>: the \<^verbatim>\<open>switch\<close> has the one case \<open>BUY_TREASURY\<close>; for
  every other intent \<^verbatim>\<open>lines\<close> stays empty.
\<close>

definition createJournalEntries :: "PaymentConfirmed \<Rightarrow> string \<Rightarrow> int \<Rightarrow> JournalPost" where
  "createJournalEntries event uuid now =
     (let lines =
        (case pc_intent event of
           BUY_TREASURY \<Rightarrow>
             [ \<lparr> jl_account = \<lparr> acc_onliId = pc_buyerId event, acc_kind = SPECIES_balance \<rparr>,
                 jl_currency = SPECIES, jl_amount = pc_amount event, jl_side = Dr \<rparr>,
               \<lparr> jl_account = \<lparr> acc_onliId = ''treasury'', acc_kind = SPECIES_inventory \<rparr>,
                 jl_currency = SPECIES, jl_amount = pc_amount event, jl_side = Cr \<rparr>,
               \<lparr> jl_account = \<lparr> acc_onliId = ''assurance'', acc_kind = USDT_cash \<rparr>,
                 jl_currency = USDT, jl_amount = pc_usdtAmount event, jl_side = Dr \<rparr>,
               \<lparr> jl_account = \<lparr> acc_onliId = pc_buyerId event, acc_kind = USDT_cash \<rparr>,
                 jl_currency = USDT, jl_amount = pc_usdtAmount event, jl_side = Cr \<rparr> ]
         | _ \<Rightarrow> [])
      in \<lparr> jp_postingId = uuid,
           jp_eventId = pc_eventId event,
           jp_matchId = pc_matchId event,
           jp_lines = lines,
           jp_postedAt = now,
           jp_description = (pc_intent event, pc_amount event) \<rparr>)"

text \<open>The sum of the amounts of the lines of one currency on one side.\<close>

definition sumSide :: "Currency \<Rightarrow> Side \<Rightarrow> JournalLine list \<Rightarrow> number" where
  "sumSide c s ls = sum_list (map jl_amount (filter (\<lambda>l. jl_currency l = c \<and> jl_side l = s) ls))"

definition balanced :: "JournalPost \<Rightarrow> bool" where
  "balanced journal =
     (sumSide USDT Dr (jp_lines journal) = sumSide USDT Cr (jp_lines journal)
      \<and> sumSide SPECIES Dr (jp_lines journal) = sumSide SPECIES Cr (jp_lines journal))"

text \<open>
  The stores the Cashier writes: the posting references of its database, the postings
  the external ledger holds, the running balances and the messages published.
\<close>

record CashierState =
  cs_postingRefs :: "string \<rightharpoonup> string"
  cs_firefly :: "JournalPost list"
  cs_balances :: "(Account \<times> Currency) \<Rightarrow> number"
  cs_published :: "LedgerPosted list"

definition idempotencyKey :: "string \<Rightarrow> string \<Rightarrow> string" where
  "idempotencyKey eid mid = eid @ '':'' @ mid"

text \<open>
  Modelled from the spec: \<^verbatim>\<open>isAlreadyPosted\<close> and \<^verbatim>\<open>storePostingReference\<close> are called by
  \<^verbatim>\<open>processPaymentConfirmed\<close> and their bodies are not given.  The posting reference is
  stored in the local database under the key \<^verbatim>\<open>eventId:matchId\<close>, and a key is already
  posted when a reference is stored under it.
\<close>

definition isAlreadyPosted :: "CashierState \<Rightarrow> string \<Rightarrow> bool" where
  "isAlreadyPosted st key = (cs_postingRefs st key \<noteq> None)"

definition storePostingReference :: "CashierState \<Rightarrow> string \<Rightarrow> string \<Rightarrow> CashierState" where
  "storePostingReference st key postingId = st\<lparr> cs_postingRefs := (cs_postingRefs st)(key \<mapsto> postingId) \<rparr>"

text \<open>
  Modelled from the spec: \<^verbatim>\<open>validateBalanced\<close> is called before the posting and its body
  is not given.  The poster verifies that every currency's debit and credit sums are
  equal; a mismatch is fatal: it is raised, not corrected.
\<close>

definition validateBalanced :: "JournalPost \<Rightarrow> error + unit" where
  "validateBalanced journal =
     (if balanced journal then Inr () else Inl (Error ''ledger.imbalance''))"

text \<open>
  Modelled from the spec: \<^verbatim>\<open>postToFirefly\<close>, \<^verbatim>\<open>updateBalanceCache\<close>,
  \<^verbatim>\<open>getAffectedAccounts\<close>, \<^verbatim>\<open>sumDebits\<close> and \<^verbatim>\<open>sumCredits\<close> are called and their bodies
  are not given.  The ledger receives the posting and answers with its posting id; the
  running balance of an account rises by its debits and falls by its credits.
\<close>

definition postToFirefly :: "CashierState \<Rightarrow> JournalPost \<Rightarrow> string \<times> CashierState" where
  "postToFirefly st journal = (jp_postingId journal, st\<lparr> cs_firefly := cs_firefly st @ [journal] \<rparr>)"

definition applyLine :: "JournalLine \<Rightarrow> ((Account \<times> Currency) \<Rightarrow> number) \<Rightarrow> ((Account \<times> Currency) \<Rightarrow> number)" where
  "applyLine l b =
     b((jl_account l, jl_currency l) :=
         b (jl_account l, jl_currency l) + (if jl_side l = Dr then jl_amount l else - jl_amount l))"

definition updateBalanceCache :: "CashierState \<Rightarrow> JournalPost \<Rightarrow> CashierState" where
  "updateBalanceCache st journal = st\<lparr> cs_balances := fold applyLine (jp_lines journal) (cs_balances st) \<rparr>"

definition getAffectedAccounts :: "JournalPost \<Rightarrow> string list" where
  "getAffectedAccounts journal = remdups (map (\<lambda>l. acc_onliId (jl_account l)) (jp_lines journal))"

definition sumDebits :: "JournalPost \<Rightarrow> number" where
  "sumDebits journal = sum_list (map jl_amount (filter (\<lambda>l. jl_side l = Dr) (jp_lines journal)))"

definition sumCredits :: "JournalPost \<Rightarrow> number" where
  "sumCredits journal = sum_list (map jl_amount (filter (\<lambda>l. jl_side l = Cr) (jp_lines journal)))"

text \<open>
  The part of \<^verbatim>\<open>processPaymentConfirmed\<close> that follows the creation of the journal
  (validate, post, store the reference, update the cache, publish), as a function of the
  journal.  \<open>now\<close> is the clock read for the published message.
\<close>

definition submitJournal ::
  "CashierState \<Rightarrow> PaymentConfirmed \<Rightarrow> JournalPost \<Rightarrow> string \<Rightarrow> error + CashierState" where
  "submitJournal st event journal now =
     (case validateBalanced journal of
        Inl e \<Rightarrow> Inl e
      | Inr _ \<Rightarrow>
          (let key = idempotencyKey (pc_eventId event) (pc_matchId event);
               (postingId, st1) = postToFirefly st journal;
               st2 = storePostingReference st1 key postingId;
               st3 = updateBalanceCache st2 journal
           in Inr (st3\<lparr> cs_published := cs_published st3 @
                [\<lparr> lp_topic = ''ledger.posted'',
                   lp_eventId = pc_eventId event,
                   lp_matchId = pc_matchId event,
                   lp_postingId = postingId,
                   lp_accountsAffected = getAffectedAccounts journal,
                   lp_totalDebit = sumDebits journal,
                   lp_totalCredit = sumCredits journal,
                   lp_ts = now \<rparr>] \<rparr>)))"

text \<open>
  \<^verbatim>\<open>processPaymentConfirmed\<close>; \<open>uuid\<close> and \<open>now_posted\<close> are the values
  \<^verbatim>\<open>createJournalEntries\<close> reads, \<open>now\<close> the clock of the published message.
\<close>

definition processPaymentConfirmed ::
  "CashierState \<Rightarrow> PaymentConfirmed \<Rightarrow> string \<Rightarrow> int \<Rightarrow> string \<Rightarrow> error + CashierState" where
  "processPaymentConfirmed st event uuid now_posted now =
     (let key = idempotencyKey (pc_eventId event) (pc_matchId event) in
      if isAlreadyPosted st key then Inr st
      else submitJournal st event (createJournalEntries event uuid now_posted) now)"

text \<open>Delivering the same message \<open>n\<close> more times, each with its own uuid and clock.\<close>

fun redeliver ::
  "CashierState \<Rightarrow> PaymentConfirmed \<Rightarrow> (string \<times> int \<times> string) list \<Rightarrow> error + CashierState" where
  "redeliver st event [] = Inr st"
| "redeliver st event ((uuid, now_posted, now) # rest) =
     (case processPaymentConfirmed st event uuid now_posted now of
        Inl e \<Rightarrow> Inl e
      | Inr st' \<Rightarrow> redeliver st' event rest)"

section \<open>Floor Manager (SpecCards/08\_FloorManager.ts)\<close>

datatype Operation = Issue | ChangeOwner

record OwnershipChanged =
  och_topic :: string
  och_eventId :: string
  och_matchId :: string
  och_assetReceiptId :: string
  och_operation :: Operation
  och_from :: "string option"
  och_to :: string
  och_amount :: number
  och_ts :: string

text \<open>The request \<^verbatim>\<open>verifyWithOracle\<close> sends, with the four fields it sets.\<close>

record OracleVerifyRequest =
  ovr_who :: string
  ovr_limit :: string
  ovr_sort_by :: string
  ovr_sort_order :: string

record OracleHelix =
  which_onli :: string
  what_kind :: string
  what_type :: string
  what_face :: string
  current_owner_id :: string
  current_owner_name :: string
  last_updated :: string
  blacklisted :: bool

record OracleResponse =
  OracleHelices :: "OracleHelix list"

record OracleVerdict =
  verified :: bool
  helixCount :: nat
  reason :: "string option"

text \<open>
  \<^verbatim>\<open>verifyWithOracle\<close>; the custodian's \<^verbatim>\<open>revealGenomes\<close> is an argument and may
  reject.  The receipt id is received and not read.
\<close>

definition verifyWithOracle ::
  "(OracleVerifyRequest \<Rightarrow> error + OracleResponse) \<Rightarrow> string \<Rightarrow> string \<Rightarrow> error + OracleVerdict" where
  "verifyWithOracle revealGenomes owner receiptId =
     (case revealGenomes \<lparr> ovr_who = owner, ovr_limit = ''1000'',
                           ovr_sort_by = ''last_updated'', ovr_sort_order = ''DESC'' \<rparr> of
        Inl e \<Rightarrow> Inl e
      | Inr response \<Rightarrow>
          (let verified = list_ex (\<lambda>helix. current_owner_id helix = owner) (OracleHelices response)
           in Inr \<lparr> verified = verified,
                    helixCount = length (OracleHelices response),
                    reason = (if verified then None else Some ''Owner not found in oracle'') \<rparr>))"

text \<open>
  The two ends of \<^verbatim>\<open>processOwnershipChanged\<close>: the \<^verbatim>\<open>order.completed\<close> message it
  publishes with status \<open>COMPLETED\<close> and the receipt, or the call of
  \<^verbatim>\<open>handleReconciliationFailure\<close> with the error caught.
\<close>

datatype 'r FloorOutcome =
    OrderCompleted string 'r string
  | ReconciliationFailure OwnershipChanged error

text \<open>
  \<^verbatim>\<open>processOwnershipChanged\<close>.  The steps after the verification whose bodies are not
  given (\<^verbatim>\<open>finalizeLedgers\<close>, \<^verbatim>\<open>composeEventReceipt\<close>, \<^verbatim>\<open>storeReceipt\<close>,
  \<^verbatim>\<open>cleanup\<close>) are the one argument \<open>settle\<close>, which gives the receipt or the error
  one of them throws.  A verdict that is not verified always carries its reason.
\<close>

definition processOwnershipChanged ::
  "(OracleVerifyRequest \<Rightarrow> error + OracleResponse) \<Rightarrow> (OwnershipChanged \<Rightarrow> error + 'r)
     \<Rightarrow> OwnershipChanged \<Rightarrow> string \<Rightarrow> 'r FloorOutcome" where
  "processOwnershipChanged revealGenomes settle event now =
     (case verifyWithOracle revealGenomes (och_to event) (och_assetReceiptId event) of
        Inl e \<Rightarrow> ReconciliationFailure event e
      | Inr oracleResult \<Rightarrow>
          if \<not> verified oracleResult
          then ReconciliationFailure event
                 (Error (''Oracle verification failed: '' @ (case reason oracleResult of None \<Rightarrow> ''null'' | Some r \<Rightarrow> r)))
          else (case settle event of
                  Inl e \<Rightarrow> ReconciliationFailure event e
                | Inr receipt \<Rightarrow> OrderCompleted (och_eventId event) receipt now))"

fun isCompleted :: "'r FloorOutcome \<Rightarrow> bool" where
  "isCompleted (OrderCompleted _ _ _) = True"
| "isCompleted (ReconciliationFailure _ _) = False"

text \<open>
  The check the specification asks for, in its words: the asset appears under the
  expected owner in the expected amount.  A helix is one unit of the asset, so the amount
  held is the number of helices of that owner.
\<close>

definition oracleAmount :: "OracleResponse \<Rightarrow> string \<Rightarrow> nat" where
  "oracleAmount response owner =
     length (filter (\<lambda>helix. current_owner_id helix = owner) (OracleHelices response))"

definition expectedOwnerAndAmount :: "OracleResponse \<Rightarrow> OwnershipChanged \<Rightarrow> bool" where
  "expectedOwnerAndAmount response event =
     (0 < oracleAmount response (och_to event)
      \<and> of_nat (oracleAmount response (och_to event)) = och_amount event)"

section \<open>Binary64 arithmetic\<close>

text \<open>
  The Validator computes with amounts: it subtracts, multiplies, divides and compares
  IEEE binary64 numbers.  Its model takes the numbers as a type \<open>'n\<close> and their
  arithmetic as an argument, so that what is proved of it holds of whatever the machine
  computes.
\<close>

record 'n DoubleOps =
  d_minus :: "'n \<Rightarrow> 'n \<Rightarrow> 'n"
  d_times :: "'n \<Rightarrow> 'n \<Rightarrow> 'n"
  d_divide :: "'n \<Rightarrow> 'n \<Rightarrow> 'n"
  d_abs :: "'n \<Rightarrow> 'n"
  d_less :: "'n \<Rightarrow> 'n \<Rightarrow> bool"
  d_strictEquals :: "'n \<Rightarrow> 'n \<Rightarrow> bool"
  d_ofInt :: "int \<Rightarrow> 'n"
  d_literal :: "rat \<Rightarrow> 'n"

text \<open>
  The finite binary64 numbers are rationals, and an operation on them gives the exact
  result rounded to the nearest number with a 53-bit significand, ties to even, with the
  subnormal spacing (2 to the power -1074) at the bottom.  \<open>binary64\<close> is this rounding; results
  beyond the largest finite number (infinities) and NaN are outside the instance
  \<open>binary64Ops\<close>, and so is a division by zero.
\<close>

function bitlen :: "int \<Rightarrow> int" where
  "bitlen n = (if n \<le> 0 then 0 else 1 + bitlen (n div 2))"
  by auto
termination
  by (relation "measure nat") auto

declare bitlen.simps [simp del]

definition pow2 :: "int \<Rightarrow> rat" where
  "pow2 e = (if 0 \<le> e then 2 ^ nat e else 1 / 2 ^ nat (- e))"

text \<open>The exponent \<open>k\<close> with \<open>pow2 k \<le> a < pow2 (k + 1)\<close>, for a positive \<open>a\<close>.\<close>

definition floorLog2 :: "rat \<Rightarrow> int" where
  "floorLog2 a =
     (let (p, q) = quotient_of a;
          k = bitlen p - bitlen q
      in if pow2 k \<le> a then k else k - 1)"

definition roundHalfEven :: "rat \<Rightarrow> int" where
  "roundHalfEven r =
     (let f = \<lfloor>r\<rfloor>; d = r - of_int f
      in if d < 1 / 2 then f else if 1 / 2 < d then f + 1 else if f mod 2 = 0 then f else f + 1)"

definition binary64 :: "rat \<Rightarrow> rat" where
  "binary64 x =
     (if x = 0 then 0
      else (let a = \<bar>x\<bar>; e = max (floorLog2 a - 52) (- 1074)
            in sgn x * of_int (roundHalfEven (a / pow2 e)) * pow2 e))"

definition binary64Ops :: "rat DoubleOps" where
  "binary64Ops =
     \<lparr> d_minus = (\<lambda>a b. binary64 (a - b)),
       d_times = (\<lambda>a b. binary64 (a * b)),
       d_divide = (\<lambda>a b. binary64 (a / b)),
       d_abs = (\<lambda>a. \<bar>a\<bar>),
       d_less = (\<lambda>a b. a < b),
       d_strictEquals = (\<lambda>a b. a = b),
       d_ofInt = (\<lambda>i. binary64 (of_int i)),
       d_literal = binary64 \<rparr>"

section \<open>Validator (Architecture/Validator\_Service\_Spec.md)\<close>

datatype Chain = TRON | ETH | BSC | UNKNOWN

text \<open>The fields of a NOWPayments payment that the verifier reads.\<close>

record 'n NOWPayment =
  payment_status :: string
  price_amount :: 'n
  price_currency :: string
  actually_paid :: 'n
  np_confirmations :: "int option"
  pay_currency :: string
  created_at :: int

text \<open>
  The checks are a JavaScript object: its keys in insertion order with their values.
  The result record covers both verifiers (\<^verbatim>\<open>payment_id\<close> and \<^verbatim>\<open>tx_hash\<close> are \<open>vr_id\<close>).
\<close>

record 'n VerificationResult =
  vr_valid :: bool
  vr_id :: string
  vr_actual_amount :: 'n
  vr_confirmations :: int
  vr_network :: Chain
  vr_checks :: "(string \<times> bool) list"

text \<open>\<^verbatim>\<open>Object.values(validationChecks).every(check => check)\<close>.\<close>

definition everyCheck :: "(string \<times> bool) list \<Rightarrow> bool" where
  "everyCheck checks = list_all (\<lambda>check. check) (map snd checks)"

text \<open>\<^verbatim>\<open>payment.confirmations || 0\<close>: an absent count and a count of zero both give 0.\<close>

definition getConfirmationsNOW :: "'n NOWPayment \<Rightarrow> int" where
  "getConfirmationsNOW payment =
     (case np_confirmations payment of None \<Rightarrow> 0 | Some c \<Rightarrow> if c = 0 then 0 else c)"

definition detectNetwork :: "'n NOWPayment \<Rightarrow> Chain" where
  "detectNetwork payment =
     (if pay_currency payment = ''usdttrc20'' then TRON
      else if pay_currency payment = ''usdterc20'' then ETH
      else if pay_currency payment = ''usdtbep20'' then BSC
      else UNKNOWN)"

text \<open>\<^verbatim>\<open>Math.abs(payment.price_amount - expectedAmount) < 0.01\<close>\<close>

definition amountCheckNOW :: "'n DoubleOps \<Rightarrow> 'n NOWPayment \<Rightarrow> 'n \<Rightarrow> bool" where
  "amountCheckNOW ops payment expectedAmount =
     d_less ops (d_abs ops (d_minus ops (price_amount payment) expectedAmount))
       (d_literal ops (1 / 100))"

text \<open>
  \<^verbatim>\<open>NOWPaymentsVerifier.verifyPayment\<close>.  The lookup of the payment (\<^verbatim>\<open>fetch\<close> and
  \<^verbatim>\<open>response.json()\<close>) is the argument \<open>fetchPayment\<close> and may reject; the freshness
  test \<^verbatim>\<open>isWithinTimeWindow\<close>, whose body is not given, is an argument too.
\<close>

definition verifyPayment ::
  "'n DoubleOps \<Rightarrow> (string \<Rightarrow> error + 'n NOWPayment) \<Rightarrow> (int \<Rightarrow> bool) \<Rightarrow> string \<Rightarrow> 'n
     \<Rightarrow> error + 'n VerificationResult" where
  "verifyPayment ops fetchPayment isWithinTimeWindow paymentId expectedAmount =
     (case fetchPayment paymentId of
        Inl e \<Rightarrow> Inl e
      | Inr payment \<Rightarrow>
          (let validationChecks =
                 [ (''status_check'', payment_status payment = ''finished''),
                   (''amount_check'', amountCheckNOW ops payment expectedAmount),
                   (''currency_check'', price_currency payment = ''USDT''),
                   (''confirmation_check'', getConfirmationsNOW payment \<ge> 12),
                   (''timestamp_check'', isWithinTimeWindow (created_at payment)) ]
           in Inr \<lparr> vr_valid = everyCheck validationChecks,
                    vr_id = paymentId,
                    vr_actual_amount = actually_paid payment,
                    vr_confirmations = getConfirmationsNOW payment,
                    vr_network = detectNetwork payment,
                    vr_checks = validationChecks \<rparr>))"

text \<open>
  A TRON transaction as \<^verbatim>\<open>fetchTransaction\<close> returns it, with the fields the verifier
  reads.  \<open>tx_contract\<close> is \<^verbatim>\<open>raw_data.contract\<close> with each element's
  \<^verbatim>\<open>parameter.value\<close>; the addresses are in the form \<^verbatim>\<open>tronWeb.address.fromHex\<close> gives,
  and \<open>trc_value\<close> is the integer that the digits of \<^verbatim>\<open>data.amount || data.value\<close> denote.
\<close>

record TRC20Transfer =
  trc_contract :: string
  trc_from :: string
  trc_to :: string
  trc_value :: int

record TronTx =
  tx_contract :: "TRC20Transfer list"
  tx_ret :: "string list"
  tx_block_timestamp :: int
  tx_blockNumber :: int

definition USDT_CONTRACT :: string where
  "USDT_CONTRACT = ''TR7NHqjeKQxGTCi8q8ZY4pL8otSzgjLj6t''"

text \<open>\<^verbatim>\<open>decodeTRC20Transfer\<close>: reading \<^verbatim>\<open>contract[0]\<close> of an empty list throws.\<close>

definition decodeTRC20Transfer :: "TronTx \<Rightarrow> error + TRC20Transfer" where
  "decodeTRC20Transfer tx =
     (case tx_contract tx of
        [] \<Rightarrow> Inl (Error ''TypeError'')
      | d # _ \<Rightarrow> Inr d)"

text \<open>\<^verbatim>\<open>parseInt(value) / 1_000_000\<close>: the number nearest to the integer, divided.\<close>

definition normalizeAmount :: "'n DoubleOps \<Rightarrow> int \<Rightarrow> 'n" where
  "normalizeAmount ops v = d_divide ops (d_ofInt ops v) (d_literal ops 1000000)"

text \<open>\<^verbatim>\<open>this.normalizeAmount(decodedData.value) === expectedAmount\<close>\<close>

definition amountCheckTRON :: "'n DoubleOps \<Rightarrow> TRC20Transfer \<Rightarrow> 'n \<Rightarrow> bool" where
  "amountCheckTRON ops decodedData expectedAmount =
     d_strictEquals ops (normalizeAmount ops (trc_value decodedData)) expectedAmount"

text \<open>\<^verbatim>\<open>getConfirmations\<close> of the TRON verifier: two lookups, then the block distance.\<close>

definition getConfirmationsTRON ::
  "(string \<Rightarrow> error + TronTx) \<Rightarrow> error + int \<Rightarrow> string \<Rightarrow> error + int" where
  "getConfirmationsTRON fetchTransaction getCurrentBlockNumber txHash =
     (case fetchTransaction txHash of
        Inl e \<Rightarrow> Inl e
      | Inr tx \<Rightarrow>
          (case getCurrentBlockNumber of
             Inl e \<Rightarrow> Inl e
           | Inr currentBlock \<Rightarrow> Inr (currentBlock - tx_blockNumber tx)))"

text \<open>
  \<^verbatim>\<open>TronVerifier.verifyTransaction\<close>.  Reading \<^verbatim>\<open>tx.ret[0].contractRet\<close> of an empty
  \<^verbatim>\<open>ret\<close> throws.  The confirmation count is read once for the check and once for
  the result; the chain is taken not to move between the two readings.
\<close>

definition verifyTransaction ::
  "'n DoubleOps \<Rightarrow> (string \<Rightarrow> error + TronTx) \<Rightarrow> error + int \<Rightarrow> (int \<Rightarrow> bool)
     \<Rightarrow> string \<Rightarrow> string \<Rightarrow> string \<Rightarrow> 'n \<Rightarrow> error + 'n VerificationResult" where
  "verifyTransaction ops fetchTransaction getCurrentBlockNumber isWithinTimeWindow
     txHash fromAddress toAddress expectedAmount =
     (case fetchTransaction txHash of
        Inl e \<Rightarrow> Inl e
      | Inr tx \<Rightarrow>
     (case decodeTRC20Transfer tx of
        Inl e \<Rightarrow> Inl e
      | Inr decodedData \<Rightarrow>
     (case getConfirmationsTRON fetchTransaction getCurrentBlockNumber txHash of
        Inl e \<Rightarrow> Inl e
      | Inr confirmations \<Rightarrow>
     (case tx_ret tx of
        [] \<Rightarrow> Inl (Error ''TypeError'')
      | contractRet # _ \<Rightarrow>
          (let validationChecks =
                 [ (''contract_check'', trc_contract decodedData = USDT_CONTRACT),
                   (''from_check'', trc_from decodedData = fromAddress),
                   (''to_check'', trc_to decodedData = toAddress),
                   (''amount_check'', amountCheckTRON ops decodedData expectedAmount),
                   (''confirmation_check'', confirmations \<ge> 12),
                   (''status_check'', contractRet = ''SUCCESS''),
                   (''timestamp_check'', isWithinTimeWindow (tx_block_timestamp tx)) ]
           in Inr \<lparr> vr_valid = everyCheck validationChecks,
                    vr_id = txHash,
                    vr_actual_amount = normalizeAmount ops (trc_value decodedData),
                    vr_confirmations = confirmations,
                    vr_network = TRON,
                    vr_checks = validationChecks \<rparr>)))))"

text \<open>The payment part of a request and the request itself (SpecCard: Validator Service).\<close>

record PayWith =
  pw_currency :: string
  pw_chain :: Chain
  pw_proof :: "string option"
  pw_feeProof :: "string option"

record 'n EventRequest =
  er_eventId :: string
  er_from :: string
  er_to :: string
  er_amount :: 'n
  er_payWith :: "PayWith option"
  er_putProceeds :: "PutProceeds option"

record 'n Evidence =
  ev_proof :: string
  ev_network :: Chain
  ev_confirmations :: int
  ev_amount_usdt :: 'n

text \<open>
  The two messages \<^verbatim>\<open>validatePaymentProof\<close> returns: \<^verbatim>\<open>order.validated\<close> (event id,
  mode, evidence, time) and \<^verbatim>\<open>payment.failed\<close> (event id, reason), the latter built by
  \<^verbatim>\<open>createPaymentFailed\<close>.
\<close>

datatype 'n ValidationMessage =
    Validated string Mode "'n Evidence" string
  | PaymentFailed string string

definition isAlnum :: "char \<Rightarrow> bool" where
  "isAlnum c =
     (let n = (of_char c :: nat) in (97 \<le> n \<and> n \<le> 122) \<or> (65 \<le> n \<and> n \<le> 90) \<or> (48 \<le> n \<and> n \<le> 57))"

definition isHexDigit :: "char \<Rightarrow> bool" where
  "isHexDigit c =
     (let n = (of_char c :: nat) in (97 \<le> n \<and> n \<le> 102) \<or> (65 \<le> n \<and> n \<le> 70) \<or> (48 \<le> n \<and> n \<le> 57))"

text \<open>\<^verbatim>\<open>/^npmt_[a-zA-Z0-9]+$/\<close>\<close>

definition isNOWPaymentId :: "string \<Rightarrow> bool" where
  "isNOWPaymentId proof =
     (startsWith proof ''npmt_'' \<and> drop 5 proof \<noteq> [] \<and> list_all isAlnum (drop 5 proof))"

text \<open>\<^verbatim>\<open>/^[a-f0-9]{64}$/i\<close>\<close>

definition isTronTxHash :: "string \<Rightarrow> bool" where
  "isTronTxHash proof = (length proof = 64 \<and> list_all isHexDigit proof)"

text \<open>\<^verbatim>\<open>!checks.k\<close>: true when the key is absent or its value is false.\<close>

definition notCheck :: "(string \<times> bool) list \<Rightarrow> string \<Rightarrow> bool" where
  "notCheck checks k = (map_of checks k \<noteq> Some True)"

definition determineFailureReason :: "(string \<times> bool) list \<Rightarrow> string" where
  "determineFailureReason checks =
     (if notCheck checks ''confirmation_check'' then ''insufficient.confirmations''
      else if notCheck checks ''amount_check'' then ''amount.mismatch''
      else if notCheck checks ''status_check'' then ''payment.not.complete''
      else if notCheck checks ''contract_check'' then ''invalid.token''
      else ''validation.failed'')"

text \<open>
  What the unified validator takes from its surroundings: the arithmetic of the machine,
  the two backends, and the members whose bodies are not given (\<^verbatim>\<open>getUSDTPrice\<close>,
  \<^verbatim>\<open>extractFromAddress\<close>, \<^verbatim>\<open>getPaymentDestination\<close>, \<^verbatim>\<open>determineMode\<close>,
  \<^verbatim>\<open>isWithinTimeWindow\<close>).
\<close>

record 'n ValidatorEnv =
  ve_arith :: "'n DoubleOps"
  ve_fetchPayment :: "string \<Rightarrow> error + 'n NOWPayment"
  ve_fetchTransaction :: "string \<Rightarrow> error + TronTx"
  ve_getCurrentBlockNumber :: "error + int"
  ve_isWithinTimeWindow :: "int \<Rightarrow> bool"
  ve_getUSDTPrice :: 'n
  ve_extractFromAddress :: "'n EventRequest \<Rightarrow> string"
  ve_getPaymentDestination :: "'n EventRequest \<Rightarrow> string"
  ve_determineMode :: "'n EventRequest \<Rightarrow> Mode"

text \<open>
  The \<^verbatim>\<open>try\<close> block of \<^verbatim>\<open>validatePaymentProof\<close> up to the verification result:
  the backend is chosen by the format of the proof.  \<open>Inr None\<close> is the early return
  for a proof of neither format.  The expected amount is the product
  \<^verbatim>\<open>eventRequest.amount * this.getUSDTPrice()\<close>.
\<close>

definition selectAndVerify ::
  "'n ValidatorEnv \<Rightarrow> 'n EventRequest \<Rightarrow> string \<Rightarrow> error + 'n VerificationResult option" where
  "selectAndVerify env eventRequest proof =
     (if isNOWPaymentId proof then
        map_sum id Some
          (verifyPayment (ve_arith env) (ve_fetchPayment env) (ve_isWithinTimeWindow env) proof
             (d_times (ve_arith env) (er_amount eventRequest) (ve_getUSDTPrice env)))
      else if isTronTxHash proof then
        map_sum id Some
          (verifyTransaction (ve_arith env) (ve_fetchTransaction env) (ve_getCurrentBlockNumber env)
             (ve_isWithinTimeWindow env) proof
             (ve_extractFromAddress env eventRequest) (ve_getPaymentDestination env eventRequest)
             (d_times (ve_arith env) (er_amount eventRequest) (ve_getUSDTPrice env)))
      else Inr None)"

text \<open>
  \<^verbatim>\<open>validatePaymentProof\<close>; \<open>now\<close> is the clock of the \<^verbatim>\<open>order.validated\<close> message.
  \<^verbatim>\<open>!payWith?.proof\<close> holds for an absent \<^verbatim>\<open>payWith\<close>, an absent proof and the
  empty proof.  Every error thrown inside the \<^verbatim>\<open>try\<close> block is caught.
\<close>

definition validatePaymentProof ::
  "'n ValidatorEnv \<Rightarrow> 'n EventRequest \<Rightarrow> string \<Rightarrow> 'n ValidationMessage" where
  "validatePaymentProof env eventRequest now =
     (case er_payWith eventRequest of
        None \<Rightarrow> PaymentFailed (er_eventId eventRequest) ''proof.missing''
      | Some payWith \<Rightarrow>
     (case pw_proof payWith of
        None \<Rightarrow> PaymentFailed (er_eventId eventRequest) ''proof.missing''
      | Some proof \<Rightarrow>
          if proof = [] then PaymentFailed (er_eventId eventRequest) ''proof.missing''
          else
            (case selectAndVerify env eventRequest proof of
               Inl e \<Rightarrow> PaymentFailed (er_eventId eventRequest) ''verification.error''
             | Inr None \<Rightarrow> PaymentFailed (er_eventId eventRequest) ''proof.invalid_format''
             | Inr (Some verificationResult) \<Rightarrow>
                 if \<not> vr_valid verificationResult
                 then PaymentFailed (er_eventId eventRequest)
                        (determineFailureReason (vr_checks verificationResult))
                 else Validated (er_eventId eventRequest) (ve_determineMode env eventRequest)
                        \<lparr> ev_proof = proof,
                          ev_network = vr_network verificationResult,
                          ev_confirmations = vr_confirmations verificationResult,
                          ev_amount_usdt = vr_actual_amount verificationResult \<rparr>
                        now)))"

text \<open>
  The dual-path validator of the build plan (\<^verbatim>\<open>internal/validator/dual_path.go\<close>,
  \<^verbatim>\<open>VerifyPayment\<close>): the first backend is tried, and unless it answers with a valid
  result the second backend's answer is returned.  The two backends are arguments.
\<close>

definition VerifyPayment ::
  "(string \<Rightarrow> string \<Rightarrow> 'n \<Rightarrow> error + 'n VerificationResult)
     \<Rightarrow> (string \<Rightarrow> 'n \<Rightarrow> error + 'n VerificationResult)
     \<Rightarrow> string \<Rightarrow> string \<Rightarrow> 'n \<Rightarrow> error + 'n VerificationResult" where
  "VerifyPayment verifyWithMoralis verifyWithNOWPayments proof chain amount =
     (case verifyWithMoralis proof chain amount of
        Inr result \<Rightarrow>
          if vr_valid result then Inr result else verifyWithNOWPayments proof amount
      | Inl err \<Rightarrow> verifyWithNOWPayments proof amount)"

text \<open>
  The five predicates of the specification, in its words, on the processor path: the
  status indicates finality, the currency is the expected asset, the actual confirmed
  amount is within the relative tolerance \<open>tol\<close> of the expected amount, the confirmation
  count reaches the minimum, and the timestamp is within the freshness window.
\<close>

definition withinRelativeTolerance :: "rat \<Rightarrow> rat \<Rightarrow> rat \<Rightarrow> bool" where
  "withinRelativeTolerance tol actual expected = (\<bar>actual - expected\<bar> \<le> tol * \<bar>expected\<bar>)"

definition fivePredicatesNOW :: "rat \<Rightarrow> (int \<Rightarrow> bool) \<Rightarrow> rat NOWPayment \<Rightarrow> rat \<Rightarrow> bool" where
  "fivePredicatesNOW tol window payment expectedAmount =
     (payment_status payment = ''finished''
      \<and> price_currency payment = ''USDT''
      \<and> withinRelativeTolerance tol (actually_paid payment) expectedAmount
      \<and> getConfirmationsNOW payment \<ge> 12
      \<and> window (created_at payment))"

section \<open>Listings and reservations of the Matching Service\<close>

datatype ListingStatus = ACTIVE | PARTIALLY_FILLED | FILLED | LISTING_EXPIRED | CANCELLED

text \<open>
  The \<^verbatim>\<open>Listing\<close> interface of the service card; its \<^verbatim>\<open>amount\<close> is the total amount
  of the listing.
\<close>

record Listing =
  l_listingId :: string
  l_askToMoveId :: "string option"
  l_sellerId :: string
  l_amount :: number
  l_priceUsdt :: number
  l_availableAmount :: number
  l_status :: ListingStatus
  l_createdAt :: int
  l_expiresAt :: int

text \<open>
  Modelled from the spec: the service card calls \<^verbatim>\<open>createMarketFills\<close>,
  \<^verbatim>\<open>createListing\<close> and \<^verbatim>\<open>storeMatchReservations\<close> and gives no body for them, nor for
  the release of an expired reservation or the confirmation of a fill.  What follows is
  the state machine of the specification (sections 3 and 4.3): a reservation holds its
  amount out of the listing's available amount; a market purchase against an expired
  listing fails, one for more than the available amount fails when partial fills are
  disallowed, and otherwise the filled amount is taken from the available amount and one
  reservation is created in the \<open>RESERVED\<close> state with a short expiry; a reservation
  whose expiry elapses before it is confirmed returns its amount to the listing once; a
  sell request of at least the configured minimum creates an \<open>ACTIVE\<close> listing that
  expires after 48 hours.
\<close>

record MatchReservation =
  mr_matchId :: string
  mr_eventId :: string
  mr_buyerId :: string
  mr_sellerId :: string
  mr_amount :: number
  mr_listingId :: "string option"
  mr_status :: FillStatus
  mr_createdAt :: int
  mr_expiresAt :: int

record ListingBook =
  lb_listing :: Listing
  lb_reservations :: "MatchReservation list"

datatype MatchingError = ListingNotFound | ListingInsufficient | ListingExpired | AmountBelowMinimum | ReservationNotFound

definition newListing ::
  "number \<Rightarrow> MatchingOrderClassified \<Rightarrow> number \<Rightarrow> string \<Rightarrow> int \<Rightarrow> MatchingError + ListingBook" where
  "newListing minAmount event priceUsdt uuid now =
     (if moc_amount event < minAmount then Inl AmountBelowMinimum
      else Inr \<lparr> lb_listing =
                  \<lparr> l_listingId = uuid,
                    l_askToMoveId = None,
                    l_sellerId = moc_from event,
                    l_amount = moc_amount event,
                    l_priceUsdt = priceUsdt,
                    l_availableAmount = moc_amount event,
                    l_status = ACTIVE,
                    l_createdAt = now,
                    l_expiresAt = now + 48 * 60 * 60 * 1000 \<rparr>,
                lb_reservations = [] \<rparr>)"

definition reserveAgainstListing ::
  "bool \<Rightarrow> ListingBook \<Rightarrow> MatchingOrderClassified \<Rightarrow> string \<Rightarrow> int \<Rightarrow> MatchingError + ListingBook" where
  "reserveAgainstListing allowPartialFills book event uuid now =
     (let l = lb_listing book in
      if moc_listingId event \<noteq> Some (l_listingId l) then Inl ListingNotFound
      else if l_expiresAt l < now then Inl ListingExpired
      else if l_availableAmount l < moc_amount event \<and> \<not> allowPartialFills then Inl ListingInsufficient
      else
        (let filled = min (moc_amount event) (l_availableAmount l) in
         Inr \<lparr> lb_listing = l\<lparr> l_availableAmount := l_availableAmount l - filled \<rparr>,
               lb_reservations = lb_reservations book @
                 [\<lparr> mr_matchId = uuid,
                    mr_eventId = moc_eventId event,
                    mr_buyerId = moc_from event,
                    mr_sellerId = l_sellerId l,
                    mr_amount = filled,
                    mr_listingId = Some (l_listingId l),
                    mr_status = RESERVED,
                    mr_createdAt = now,
                    mr_expiresAt = now + 5 * 60 * 1000 \<rparr>] \<rparr>))"

text \<open>A reservation is lapsed when its expiry has passed and it is neither confirmed nor already released.\<close>

definition lapsed :: "string \<Rightarrow> int \<Rightarrow> MatchReservation \<Rightarrow> bool" where
  "lapsed mid now r =
     (mr_matchId r = mid \<and> mr_expiresAt r < now \<and> mr_status r \<noteq> CONFIRMED \<and> mr_status r \<noteq> EXPIRED)"

definition releaseExpired :: "ListingBook \<Rightarrow> string \<Rightarrow> int \<Rightarrow> ListingBook" where
  "releaseExpired book mid now =
     \<lparr> lb_listing = (lb_listing book)
         \<lparr> l_availableAmount := l_availableAmount (lb_listing book)
              + sum_list (map mr_amount (filter (lapsed mid now) (lb_reservations book))) \<rparr>,
       lb_reservations =
         map (\<lambda>r. if lapsed mid now r then r\<lparr> mr_status := EXPIRED \<rparr> else r) (lb_reservations book) \<rparr>"

text \<open>Confirmation of a fill: a live reservation that is not expired becomes \<open>CONFIRMED\<close>.\<close>

definition confirmable :: "string \<Rightarrow> int \<Rightarrow> MatchReservation \<Rightarrow> bool" where
  "confirmable mid now r =
     (mr_matchId r = mid \<and> now \<le> mr_expiresAt r \<and> (mr_status r = RESERVED \<or> mr_status r = PENDING))"

definition confirmFill :: "ListingBook \<Rightarrow> string \<Rightarrow> int \<Rightarrow> ListingBook" where
  "confirmFill book mid now =
     book\<lparr> lb_reservations :=
       map (\<lambda>r. if confirmable mid now r then r\<lparr> mr_status := CONFIRMED \<rparr> else r) (lb_reservations book) \<rparr>"

datatype MatchingOp =
    Reserve bool MatchingOrderClassified string int
  | ReleaseExpired string int
  | ConfirmFill string int

text \<open>One operation on a listing; an operation that fails leaves the book as it was.\<close>

fun applyOp :: "ListingBook \<Rightarrow> MatchingOp \<Rightarrow> ListingBook" where
  "applyOp book (Reserve allowPartialFills event uuid now) =
     (case reserveAgainstListing allowPartialFills book event uuid now of
        Inl _ \<Rightarrow> book
      | Inr book' \<Rightarrow> book')"
| "applyOp book (ReleaseExpired mid now) = releaseExpired book mid now"
| "applyOp book (ConfirmFill mid now) = confirmFill book mid now"

fun runOps :: "ListingBook \<Rightarrow> MatchingOp list \<Rightarrow> ListingBook" where
  "runOps book [] = book"
| "runOps book (op # ops) = runOps (applyOp book op) ops"

text \<open>The requests carry positive amounts (section 3 of the specification).\<close>

fun positiveRequest :: "MatchingOp \<Rightarrow> bool" where
  "positiveRequest (Reserve _ event _ _) = (0 < moc_amount event)"
| "positiveRequest _ = True"

fun isRelease :: "MatchingOp \<Rightarrow> bool" where
  "isRelease (ReleaseExpired _ _) = True"
| "isRelease _ = False"

text \<open>The amount held out of a listing: that of its reservations not yet released.\<close>

definition heldAmount :: "MatchReservation list \<Rightarrow> number" where
  "heldAmount rs = sum_list (map mr_amount (filter (\<lambda>r. mr_status r \<noteq> EXPIRED) rs))"

definition bookInvariant :: "ListingBook \<Rightarrow> bool" where
  "bookInvariant book =
     (0 \<le> l_availableAmount (lb_listing book)
      \<and> list_all (\<lambda>r. 0 \<le> mr_amount r) (lb_reservations book)
      \<and> l_availableAmount (lb_listing book) + heldAmount (lb_reservations book) = l_amount (lb_listing book))"

section \<open>Example inputs\<close>

text \<open>A treasury purchase of 1000 units by \<open>buyer-1\<close>, as each service sees it.\<close>

definition request0 :: ClassifierInput where
  "request0 =
     \<lparr> ci_event = \<lparr> ce_eventId = ''evt-1'', ce_from = ''buyer-1'', ce_to = ''treasury'',
                     ce_amount = 1000, ce_listingId = None, ce_putProceeds = None \<rparr>,
       ci_userRegistry = None, ci_ts = ''2025-01-01T00:00:00.000Z'' \<rparr>"

definition validated0 :: OrderValidated where
  "validated0 =
     \<lparr> ov_topic = ''order.validated'', ov_eventId = ''evt-1'', ov_from = ''buyer-1'',
       ov_to = ''Treasury'', ov_amount = 1000, ov_mode = BUY, ov_prepaid = True,
       ov_evidence = None, ov_ts = ''2025-01-01T00:00:00.000Z'' \<rparr>"

definition getUser0 :: "string \<Rightarrow> error + RegistryUser" where
  "getUser0 u =
     (if u = ''buyer-1'' then Inr \<lparr> ru_onliId = ''buyer-1'', ru_vaultId = Some ''vault-1'' \<rparr>
      else Inl (Error ''user.not_found''))"

definition classified0 :: MatchingOrderClassified where
  "classified0 =
     \<lparr> moc_topic = ''order.classified'', moc_eventId = ''evt-1'', moc_intent = BUY_TREASURY,
       moc_amount = 1000, moc_listingId = None, moc_from = ''buyer-1'', moc_to = ''treasury'',
       moc_ts = ''2025-01-01T00:00:00.000Z'' \<rparr>"

definition noHandler :: "MatchingOrderClassified \<Rightarrow> error + Fill list" where
  "noHandler event = Inl (Error ''not implemented'')"

definition confirmed0 :: PaymentConfirmed where
  "confirmed0 =
     \<lparr> pc_topic = ''payment.confirmed'', pc_eventId = ''evt-1'', pc_matchId = ''m-1'',
       pc_buyerId = ''buyer-1'', pc_sellerId = ''usr-treasury-vault-system'',
       pc_intent = BUY_TREASURY, pc_amount = 1000, pc_usdtAmount = 1000, pc_feeUsdt = None,
       pc_provider = ''TRON'', pc_providerPaymentId = None, pc_confirmations = 15,
       pc_ts = ''2025-01-01T00:00:00.000Z'' \<rparr>"

definition cashier0 :: CashierState where
  "cashier0 = \<lparr> cs_postingRefs = Map.empty, cs_firefly = [], cs_balances = (\<lambda>_. 0), cs_published = [] \<rparr>"

text \<open>A posting with a debit and no credit.\<close>

definition lopsided :: JournalPost where
  "lopsided =
     \<lparr> jp_postingId = ''p-1'', jp_eventId = ''evt-1'', jp_matchId = ''m-1'',
       jp_lines = [\<lparr> jl_account = \<lparr> acc_onliId = ''buyer-1'', acc_kind = SPECIES_balance \<rparr>,
                    jl_currency = SPECIES, jl_amount = 1000, jl_side = Dr \<rparr>],
       jp_postedAt = 0, jp_description = (BUY_TREASURY, 1000) \<rparr>"

text \<open>The Cashier's stores after the first delivery of \<open>confirmed0\<close>.\<close>

definition posted0 :: CashierState where
  "posted0 =
     \<lparr> cs_postingRefs = [''evt-1:m-1'' \<mapsto> ''u-1''],
       cs_firefly = [createJournalEntries confirmed0 ''u-1'' 7],
       cs_balances = fold applyLine (jp_lines (createJournalEntries confirmed0 ''u-1'' 7)) (\<lambda>_. 0),
       cs_published =
         [\<lparr> lp_topic = ''ledger.posted'', lp_eventId = ''evt-1'', lp_matchId = ''m-1'',
            lp_postingId = ''u-1'',
            lp_accountsAffected = getAffectedAccounts (createJournalEntries confirmed0 ''u-1'' 7),
            lp_totalDebit = sumDebits (createJournalEntries confirmed0 ''u-1'' 7),
            lp_totalCredit = sumCredits (createJournalEntries confirmed0 ''u-1'' 7),
            lp_ts = ''2025-01-01T00:00:07.000Z'' \<rparr>] \<rparr>"

definition changed0 :: OwnershipChanged where
  "changed0 =
     \<lparr> och_topic = ''ownership.changed'', och_eventId = ''evt-1'', och_matchId = ''m-1'',
       och_assetReceiptId = ''issue-1'', och_operation = Issue, och_from = None,
       och_to = ''buyer-1'', och_amount = 1000, och_ts = ''2025-01-01T00:00:00.000Z'' \<rparr>"

definition helix0 :: OracleHelix where
  "helix0 =
     \<lparr> which_onli = ''onli-1'', what_kind = ''SPECIES'', what_type = ''asset'', what_face = ''1'',
       current_owner_id = ''buyer-1'', current_owner_name = ''Buyer'',
       last_updated = ''2025-01-01'', blacklisted = False \<rparr>"

text \<open>An oracle that knows one unit under \<open>buyer-1\<close>, and one that knows none.\<close>

definition oneHelixOracle :: "OracleVerifyRequest \<Rightarrow> error + OracleResponse" where
  "oneHelixOracle req = Inr \<lparr> OracleHelices = [helix0] \<rparr>"

definition emptyOracle :: "OracleVerifyRequest \<Rightarrow> error + OracleResponse" where
  "emptyOracle req = Inr \<lparr> OracleHelices = [] \<rparr>"

definition settle0 :: "OwnershipChanged \<Rightarrow> error + string" where
  "settle0 event = Inr (''receipt:'' @ och_eventId event)"

text \<open>A USDT transfer of 1000 (six decimals) on TRON, 20 blocks deep, ten minutes old.\<close>

definition transfer0 :: TRC20Transfer where
  "transfer0 =
     \<lparr> trc_contract = ''TR7NHqjeKQxGTCi8q8ZY4pL8otSzgjLj6t'', trc_from = ''TPayerAddress'',
       trc_to = ''TMarketplaceAddress'', trc_value = 1000000000 \<rparr>"

definition tx0 :: TronTx where
  "tx0 = \<lparr> tx_contract = [transfer0], tx_ret = [''SUCCESS''],
           tx_block_timestamp = 1700000000000, tx_blockNumber = 500 \<rparr>"

definition hash0 :: string where
  "hash0 = ''0123456789abcdef0123456789abcdef0123456789abcdef0123456789abcdef''"

definition fresh0 :: "int \<Rightarrow> bool" where
  "fresh0 t = (1700000600000 - t \<le> 3600000)"

definition payment0 :: "rat NOWPayment" where
  "payment0 =
     \<lparr> payment_status = ''finished'', price_amount = 1000, price_currency = ''USDT'',
       actually_paid = 1000, np_confirmations = Some 15, pay_currency = ''usdttrc20'',
       created_at = 1700000000000 \<rparr>"

text \<open>The processor backend times out; the TRON backend answers.\<close>

definition envDown :: "rat ValidatorEnv" where
  "envDown =
     \<lparr> ve_arith = binary64Ops,
       ve_fetchPayment = (\<lambda>p. Inl (Error ''ETIMEDOUT'')),
       ve_fetchTransaction = (\<lambda>h. Inr tx0),
       ve_getCurrentBlockNumber = Inr 520,
       ve_isWithinTimeWindow = fresh0,
       ve_getUSDTPrice = 1,
       ve_extractFromAddress = (\<lambda>r. ''TPayerAddress''),
       ve_getPaymentDestination = (\<lambda>r. ''TMarketplaceAddress''),
       ve_determineMode = (\<lambda>r. BUY) \<rparr>"

definition paid0 :: "rat EventRequest" where
  "paid0 =
     \<lparr> er_eventId = ''evt-1'', er_from = ''buyer-1'', er_to = ''treasury'', er_amount = 1000,
       er_payWith = Some \<lparr> pw_currency = ''USDT'', pw_chain = TRON,
                            pw_proof = Some ''npmt_abc123'', pw_feeProof = None \<rparr>,
       er_putProceeds = None \<rparr>"

text \<open>
  The processor backend answers with a finished payment quoted at 1000 USDT of which
  nothing was paid.
\<close>

definition unpaid0 :: "rat NOWPayment" where
  "unpaid0 = payment0\<lparr> actually_paid := 0 \<rparr>"

definition envUnpaid :: "rat ValidatorEnv" where
  "envUnpaid = envDown\<lparr> ve_fetchPayment := (\<lambda>p. Inr unpaid0) \<rparr>"

text \<open>A listing of 10000 units and purchases against it.\<close>

definition sell0 :: MatchingOrderClassified where
  "sell0 =
     \<lparr> moc_topic = ''order.classified'', moc_eventId = ''evt-2'', moc_intent = SELL_MARKET,
       moc_amount = 10000, moc_listingId = None, moc_from = ''seller-1'', moc_to = ''market'',
       moc_ts = ''2025-01-01T00:00:00.000Z'' \<rparr>"

definition book0 :: ListingBook where
  "book0 =
     \<lparr> lb_listing =
         \<lparr> l_listingId = ''l-1'', l_askToMoveId = None, l_sellerId = ''seller-1'',
           l_amount = 10000, l_priceUsdt = 1, l_availableAmount = 10000, l_status = ACTIVE,
           l_createdAt = 0, l_expiresAt = 172800000 \<rparr>,
       lb_reservations = [] \<rparr>"

definition buy0 :: "number \<Rightarrow> MatchingOrderClassified" where
  "buy0 n =
     \<lparr> moc_topic = ''order.classified'', moc_eventId = ''evt-3'', moc_intent = BUY_MARKET,
       moc_amount = n, moc_listingId = Some ''l-1'', moc_from = ''buyer-1'', moc_to = ''seller-1'',
       moc_ts = ''2025-01-01T00:00:01.000Z'' \<rparr>"

definition ops0 :: "MatchingOp list" where
  "ops0 =
     [ Reserve False (buy0 2500) ''m-1'' 1000,
       Reserve False (buy0 2500) ''m-2'' 2000,
       ConfirmFill ''m-1'' 3000,
       ReleaseExpired ''m-2'' 400000 ]"

section \<open>Classifier: properties\<close>

text \<open>The two string tests compute what their names say.\<close>

lemma startsWith_iff: "startsWith s needle \<longleftrightarrow> (\<exists>rest. s = needle @ rest)"
  by (induction s needle rule: startsWith.induct) auto

lemma includes_str_iff: "includes_str s needle \<longleftrightarrow> (\<exists>before rest. s = before @ needle @ rest)"
proof (induction s)
  case Nil
  then show ?case by auto
next
  case (Cons c cs)
  show ?case
  proof
    assume "includes_str (c # cs) needle"
    then consider "startsWith (c # cs) needle" | "includes_str cs needle"
      by auto
    then show "\<exists>before rest. c # cs = before @ needle @ rest"
    proof cases
      case 1
      then obtain rest where "c # cs = needle @ rest"
        by (auto simp: startsWith_iff)
      then have "c # cs = [] @ needle @ rest" by simp
      then show ?thesis by blast
    next
      case 2
      with Cons.IH obtain before rest where "cs = before @ needle @ rest"
        by blast
      then have "c # cs = (c # before) @ needle @ rest" by simp
      then show ?thesis by blast
    qed
  next
    assume "\<exists>before rest. c # cs = before @ needle @ rest"
    then obtain before rest where eq: "c # cs = before @ needle @ rest"
      by blast
    show "includes_str (c # cs) needle"
    proof (cases before)
      case Nil
      with eq have "startsWith (c # cs) needle"
        by (auto simp: startsWith_iff)
      then show ?thesis by simp
    next
      case (Cons b bs)
      with eq have "cs = bs @ needle @ rest" by simp
      with Cons.IH have "includes_str cs needle" by blast
      then show ?thesis by simp
    qed
  qed
qed

lemma decide_intent: "oc_intent (decide input now) = fst (decisionTree input)"
  by (simp add: decide_def Let_def split: prod.split)

text \<open>
  C6. The Classifier assigns the intent by a first-match-wins order: a listing reference
  (a non-empty \<^verbatim>\<open>listingId\<close>) gives \<open>BUY_MARKET\<close>; otherwise a destination that resolves
  to the treasury (\<^verbatim>\<open>isTreasuryDestination\<close>) gives \<open>BUY_TREASURY\<close>; otherwise a present
  proceeds address gives \<open>SELL_MARKET\<close>; otherwise the intent is \<open>TRANSFER\<close>.
\<close>

theorem classifier_first_match_wins:
  "oc_intent (decide input now) =
     (if truthy (ce_listingId (ci_event input)) then BUY_MARKET
      else if isTreasuryDestination (ce_to (ci_event input)) (ci_userRegistry input)
        then BUY_TREASURY
      else if ce_putProceeds (ci_event input) \<noteq> None then SELL_MARKET
      else TRANSFER)"
  by (simp add: decide_intent decisionTree_def Let_def)

text \<open>
  The order matters: a request with a listing reference, a treasury destination and a
  proceeds address at once is a market purchase.
\<close>

lemma classifier_listing_before_treasury:
  "oc_intent (decide
      (request0\<lparr> ci_event := (ci_event request0)
         \<lparr> ce_listingId := Some ''l-1'',
           ce_putProceeds := Some \<lparr> pp_usdtAddress = ''TSeller'', pp_chain = ''TRON'' \<rparr> \<rparr> \<rparr>)
      ''2025-01-01T00:00:00.000Z'') = BUY_MARKET"
  by (simp add: decide_intent decisionTree_def request0_def)

text \<open>
  C9. For a fixed input request the Classifier's output is identical across repeated
  invocations.  The code does not keep this: \<^verbatim>\<open>decide\<close>, which its own comment calls a
  pure function, reads the clock for the \<^verbatim>\<open>ts\<close> of its output, so that two runs on
  the same input one second apart return different outputs.
\<close>

theorem classifier_output_differs_by_clock:
  "decide request0 ''2025-01-01T00:00:00.000Z'' \<noteq> decide request0 ''2025-01-01T00:00:01.000Z''"
  by (simp add: decide_def Let_def split: prod.split)

text \<open>The clock reaches the output through \<^verbatim>\<open>ts\<close> only.\<close>

lemma decide_clock_only_in_ts:
  "(decide input now1)\<lparr> oc_ts := t \<rparr> = (decide input now2)\<lparr> oc_ts := t \<rparr>
   \<and> oc_ts (decide input now1) = now1"
  by (simp add: decide_def Let_def split: prod.split)

text \<open>
  C10. For every \<^verbatim>\<open>order.validated\<close> event handled by \<^verbatim>\<open>processEvent\<close>, the
  classifier input carries the event's \<^verbatim>\<open>eventId\<close>, \<^verbatim>\<open>from\<close>, \<^verbatim>\<open>to\<close> and \<^verbatim>\<open>amount\<close>
  and neither a listing id nor a proceeds address, so the published intent is
  \<open>BUY_TREASURY\<close> or \<open>TRANSFER\<close> and never \<open>BUY_MARKET\<close> or \<open>SELL_MARKET\<close>.
\<close>

theorem processEvent_treasury_or_transfer:
  "ci_event (processEventInput event now_input) =
      \<lparr> ce_eventId = ov_eventId event, ce_from = ov_from event, ce_to = ov_to event,
        ce_amount = ov_amount event, ce_listingId = None, ce_putProceeds = None \<rparr>
   \<and> oc_intent (processEvent event now_input now_decide) =
       (if includes_str (toLowerCase (ov_to event)) ''treasury'' then BUY_TREASURY else TRANSFER)
   \<and> oc_intent (processEvent event now_input now_decide) \<noteq> BUY_MARKET
   \<and> oc_intent (processEvent event now_input now_decide) \<noteq> SELL_MARKET"
  by (simp add: processEvent_def processEventInput_def decide_intent decisionTree_def Let_def
      isTreasuryDestination_def registryGet_def)

lemma processEvent_example:
  "oc_intent (processEvent validated0 ''2025-01-01T00:00:00.000Z'' ''2025-01-01T00:00:00.001Z'')
     = BUY_TREASURY"
  by code_simp

section \<open>Matching Service: the treasury fill\<close>

text \<open>
  C8, as stated, fails: the fill made for a treasury issuance is in the \<open>RESERVED\<close>
  state with an expiry five minutes after its creation.
\<close>

theorem treasury_fill_lease_counterexample:
  "map_sum id (map carriesReservationLease)
     (createFills getUser0 noHandler noHandler noHandler classified0 ''m-1'' 1000 1000) = Inr [True]"
  by (simp add: createFills_def createTreasuryFill_def getUser0_def classified0_def
      carriesReservationLease_def)

text \<open>
  C8, amended.  For a treasury-issuance intent whose requester the registry resolves, the
  Matching Service produces exactly one fill: its buyer is the requester, its seller the
  treasury account, its amount the requested amount; it refers to no listing and asks for
  no buyer proof; it is created in the \<open>RESERVED\<close> state and expires five minutes
  (300000 ms) after the clock read at its creation.
\<close>

theorem treasury_fill_single_reserved:
  assumes "moc_intent event = BUY_TREASURY" and "getUser (moc_from event) = Inr buyer"
  shows "createFills getUser createMarketFills createListing createTransferFill
           event uuid now_created now_expiry =
         Inr [\<lparr> matchId = uuid, eventId = moc_eventId event,
                buyerId = ru_onliId buyer, buyerVault = ru_vaultId buyer,
                sellerId = ''usr-treasury-vault-system'', sellerVault = Some ''treasury-vault'',
                fillAmount = moc_amount event, listingId = None, requiresBuyerProof = False,
                status = RESERVED, createdAt = now_created,
                expiresAt = now_expiry + 300000 \<rparr>]"
  using assms by (simp add: createFills_def createTreasuryFill_def)

text \<open>Witness of C8 (amended): the treasury purchase of \<open>buyer-1\<close>.\<close>

theorem treasury_fill_single_reserved_witness:
  "moc_intent classified0 = BUY_TREASURY
   \<and> getUser0 (moc_from classified0) = Inr \<lparr> ru_onliId = ''buyer-1'', ru_vaultId = Some ''vault-1'' \<rparr>
   \<and> createFills getUser0 noHandler noHandler noHandler classified0 ''m-1'' 1000 1000 =
         Inr [\<lparr> matchId = ''m-1'', eventId = ''evt-1'',
                buyerId = ''buyer-1'', buyerVault = Some ''vault-1'',
                sellerId = ''usr-treasury-vault-system'', sellerVault = Some ''treasury-vault'',
                fillAmount = 1000, listingId = None, requiresBuyerProof = False,
                status = RESERVED, createdAt = 1000, expiresAt = 301000 \<rparr>]"
proof -
  have i: "moc_intent classified0 = BUY_TREASURY"
    by (simp add: classified0_def)
  have u: "getUser0 (moc_from classified0) = Inr \<lparr> ru_onliId = ''buyer-1'', ru_vaultId = Some ''vault-1'' \<rparr>"
    by (simp add: classified0_def getUser0_def)
  from treasury_fill_single_reserved
         [where event = classified0 and getUser = getUser0
            and buyer = "\<lparr> ru_onliId = ''buyer-1'', ru_vaultId = Some ''vault-1'' \<rparr>"
            and createMarketFills = noHandler and createListing = noHandler
            and createTransferFill = noHandler and uuid = "''m-1''"
            and now_created = 1000 and now_expiry = 1000] i u
  show ?thesis by (simp add: classified0_def)
qed

section \<open>Cashier: balanced postings and re-delivery\<close>

lemma created_is_balanced: "balanced (createJournalEntries event uuid now_posted)"
  by (cases "pc_intent event") (simp_all add: balanced_def createJournalEntries_def sumSide_def)

lemma balanced_each:
  "balanced journal \<Longrightarrow> sumSide c Dr (jp_lines journal) = sumSide c Cr (jp_lines journal)"
  by (cases c) (simp_all add: balanced_def)

lemma submit_unbalanced:
  "\<not> balanced journal \<Longrightarrow> submitJournal st event journal now = Inl (Error ''ledger.imbalance'')"
  by (simp add: submitJournal_def validateBalanced_def)

lemma submit_Inr:
  "submitJournal st event journal now = Inr st' \<Longrightarrow>
     balanced journal \<and> cs_firefly st' = cs_firefly st @ [journal]
     \<and> cs_postingRefs st' =
         (cs_postingRefs st)(idempotencyKey (pc_eventId event) (pc_matchId event) \<mapsto> jp_postingId journal)"
  by (auto simp: submitJournal_def validateBalanced_def postToFirefly_def storePostingReference_def
      updateBalanceCache_def Let_def split: if_splits)

lemma submit_balanced:
  "balanced journal \<Longrightarrow> \<exists>st'. submitJournal st event journal now = Inr st'"
  by (simp add: submitJournal_def validateBalanced_def postToFirefly_def Let_def)

lemma process_total: "\<exists>st'. processPaymentConfirmed st event uuid now_posted now = Inr st'"
  using submit_balanced [OF created_is_balanced]
  by (simp add: processPaymentConfirmed_def Let_def)

lemma first_delivery:
  "processPaymentConfirmed cashier0 confirmed0 ''u-1'' 7 ''2025-01-01T00:00:07.000Z'' = Inr posted0"
  by (simp add: processPaymentConfirmed_def cashier0_def posted0_def submitJournal_def Let_def
      isAlreadyPosted_def idempotencyKey_def validateBalanced_def balanced_def sumSide_def
      createJournalEntries_def confirmed0_def postToFirefly_def storePostingReference_def
      updateBalanceCache_def)

text \<open>
  C1. For every posting the Cashier creates from a confirmed-payment event and for every
  currency, the sum of the Dr amounts equals the sum of the Cr amounts.  The poster checks
  this before the submission: a posting that is not balanced is not posted, the error is
  raised and no store is written; a posting that is submitted is balanced and is the one
  posting added to the ledger; and the processing of a confirmed payment never raises
  that error.
\<close>

theorem cashier_posting_balanced:
  "sumSide c Dr (jp_lines (createJournalEntries event uuid now_posted))
     = sumSide c Cr (jp_lines (createJournalEntries event uuid now_posted))
   \<and> (\<not> balanced journal \<longrightarrow> submitJournal st event journal now = Inl (Error ''ledger.imbalance''))
   \<and> (\<forall>st'. submitJournal st event journal now = Inr st' \<longrightarrow>
         balanced journal \<and> cs_firefly st' = cs_firefly st @ [journal])
   \<and> processPaymentConfirmed st event uuid now_posted now \<noteq> Inl (Error ''ledger.imbalance'')"
proof (intro conjI)
  show "sumSide c Dr (jp_lines (createJournalEntries event uuid now_posted))
     = sumSide c Cr (jp_lines (createJournalEntries event uuid now_posted))"
    by (rule balanced_each) (rule created_is_balanced)
  show "\<not> balanced journal \<longrightarrow> submitJournal st event journal now = Inl (Error ''ledger.imbalance'')"
    by (simp add: submit_unbalanced)
  show "\<forall>st'. submitJournal st event journal now = Inr st' \<longrightarrow>
         balanced journal \<and> cs_firefly st' = cs_firefly st @ [journal]"
    using submit_Inr by blast
  show "processPaymentConfirmed st event uuid now_posted now \<noteq> Inl (Error ''ledger.imbalance'')"
    using process_total [of st event uuid now_posted now] by auto
qed

text \<open>
  Witness of C1: the lopsided posting is refused, and the posting created for the
  treasury purchase is balanced and is the one posting in the ledger afterwards.
\<close>

theorem cashier_posting_balanced_witness:
  "\<not> balanced lopsided
   \<and> submitJournal cashier0 confirmed0 lopsided ''2025-01-01T00:00:07.000Z''
       = Inl (Error ''ledger.imbalance'')
   \<and> submitJournal cashier0 confirmed0 (createJournalEntries confirmed0 ''u-1'' 7)
         ''2025-01-01T00:00:07.000Z'' = Inr posted0
   \<and> balanced (createJournalEntries confirmed0 ''u-1'' 7)
   \<and> cs_firefly posted0 = cs_firefly cashier0 @ [createJournalEntries confirmed0 ''u-1'' 7]"
proof -
  have u: "\<not> balanced lopsided"
    by (simp add: balanced_def lopsided_def sumSide_def)
  have n: "\<not> isAlreadyPosted cashier0 (idempotencyKey (pc_eventId confirmed0) (pc_matchId confirmed0))"
    by (simp add: isAlreadyPosted_def cashier0_def)
  from first_delivery n
  have s: "submitJournal cashier0 confirmed0 (createJournalEntries confirmed0 ''u-1'' 7)
         ''2025-01-01T00:00:07.000Z'' = Inr posted0"
    by (simp add: processPaymentConfirmed_def Let_def)
  from cashier_posting_balanced
         [of SPECIES confirmed0 "''u-1''" 7 lopsided cashier0 "''2025-01-01T00:00:07.000Z''"] u
  have f: "submitJournal cashier0 confirmed0 lopsided ''2025-01-01T00:00:07.000Z''
       = Inl (Error ''ledger.imbalance'')"
    by blast
  from cashier_posting_balanced
         [of SPECIES confirmed0 "''u-1''" 7 "createJournalEntries confirmed0 ''u-1'' 7" cashier0
             "''2025-01-01T00:00:07.000Z''"] s
  have b: "balanced (createJournalEntries confirmed0 ''u-1'' 7)
     \<and> cs_firefly posted0 = cs_firefly cashier0 @ [createJournalEntries confirmed0 ''u-1'' 7]"
    by blast
  from u f s b show ?thesis by blast
qed

lemma process_posts_key:
  assumes "processPaymentConfirmed st event uuid now_posted now = Inr st1"
  shows "isAlreadyPosted st1 (idempotencyKey (pc_eventId event) (pc_matchId event))"
proof (cases "isAlreadyPosted st (idempotencyKey (pc_eventId event) (pc_matchId event))")
  case True
  with assms show ?thesis by (simp add: processPaymentConfirmed_def Let_def)
next
  case False
  with assms have "submitJournal st event (createJournalEntries event uuid now_posted) now = Inr st1"
    by (simp add: processPaymentConfirmed_def Let_def)
  from submit_Inr [OF this] show ?thesis
    by (simp add: isAlreadyPosted_def)
qed

lemma process_already_posted:
  "isAlreadyPosted st (idempotencyKey (pc_eventId event) (pc_matchId event)) \<Longrightarrow>
     processPaymentConfirmed st event uuid now_posted now = Inr st"
  by (simp add: processPaymentConfirmed_def Let_def)

lemma redeliver_already_posted:
  "isAlreadyPosted st (idempotencyKey (pc_eventId event) (pc_matchId event)) \<Longrightarrow>
     redeliver st event deliveries = Inr st"
  by (induction deliveries) (auto simp: process_already_posted)

text \<open>
  C2. Processing the same confirmed-payment message (the same \<^verbatim>\<open>eventId:matchId\<close> key)
  any number of times produces exactly one posting: the first delivery, when the key was
  not posted before, adds one posting to the ledger, and after it every re-delivery
  returns the stores as they are.
\<close>

theorem cashier_redelivery_noop:
  assumes "processPaymentConfirmed st event uuid now_posted now = Inr st1"
    and "idempotencyKey (pc_eventId event') (pc_matchId event')
           = idempotencyKey (pc_eventId event) (pc_matchId event)"
  shows "redeliver st1 event' deliveries = Inr st1
     \<and> (if isAlreadyPosted st (idempotencyKey (pc_eventId event) (pc_matchId event))
        then st1 = st
        else cs_firefly st1 = cs_firefly st @ [createJournalEntries event uuid now_posted])"
proof
  from process_posts_key [OF assms(1)] assms(2)
  have "isAlreadyPosted st1 (idempotencyKey (pc_eventId event') (pc_matchId event'))"
    by simp
  then show "redeliver st1 event' deliveries = Inr st1"
    by (rule redeliver_already_posted)
next
  show "if isAlreadyPosted st (idempotencyKey (pc_eventId event) (pc_matchId event))
        then st1 = st
        else cs_firefly st1 = cs_firefly st @ [createJournalEntries event uuid now_posted]"
  proof (cases "isAlreadyPosted st (idempotencyKey (pc_eventId event) (pc_matchId event))")
    case True
    with assms(1) show ?thesis by (simp add: processPaymentConfirmed_def Let_def)
  next
    case False
    with assms(1)
    have "submitJournal st event (createJournalEntries event uuid now_posted) now = Inr st1"
      by (simp add: processPaymentConfirmed_def Let_def)
    from submit_Inr [OF this] False show ?thesis by simp
  qed
qed

text \<open>
  Witness of C2: the treasury purchase is delivered once and then twice more; the ledger
  holds its one posting and the stores are those of the first delivery.
\<close>

theorem cashier_redelivery_noop_witness:
  "processPaymentConfirmed cashier0 confirmed0 ''u-1'' 7 ''2025-01-01T00:00:07.000Z'' = Inr posted0
   \<and> redeliver posted0 confirmed0
        [(''u-2'', 8, ''2025-01-01T00:00:08.000Z''), (''u-3'', 9, ''2025-01-01T00:00:09.000Z'')]
       = Inr posted0
   \<and> cs_firefly posted0 = [createJournalEntries confirmed0 ''u-1'' 7]"
proof -
  have n: "\<not> isAlreadyPosted cashier0 (idempotencyKey (pc_eventId confirmed0) (pc_matchId confirmed0))"
    by (simp add: isAlreadyPosted_def cashier0_def)
  from cashier_redelivery_noop
         [OF first_delivery refl,
          of "[(''u-2'', 8, ''2025-01-01T00:00:08.000Z''), (''u-3'', 9, ''2025-01-01T00:00:09.000Z'')]"] n
  have "redeliver posted0 confirmed0
          [(''u-2'', 8, ''2025-01-01T00:00:08.000Z''), (''u-3'', 9, ''2025-01-01T00:00:09.000Z'')]
         = Inr posted0
     \<and> cs_firefly posted0 = cs_firefly cashier0 @ [createJournalEntries confirmed0 ''u-1'' 7]"
    by simp
  with first_delivery show ?thesis by (simp add: cashier0_def)
qed

section \<open>Floor Manager: verification with the oracle\<close>

text \<open>
  C4. On every successful ownership change the Reconciler verifies with the oracle that
  the asset appears under the expected owner in the expected amount, and a mismatch
  (owner not found, amount off) is never treated as success.  The code does not keep
  this for the amount: the oracle knows one unit under the destination account, the
  ownership change was for 1000 units, and the order is completed.
\<close>

theorem reconciler_completes_on_amount_mismatch:
  "\<not> expectedOwnerAndAmount \<lparr> OracleHelices = [helix0] \<rparr> changed0
   \<and> processOwnershipChanged oneHelixOracle settle0 changed0 ''2025-01-01T00:00:05.000Z''
       = OrderCompleted ''evt-1'' ''receipt:evt-1'' ''2025-01-01T00:00:05.000Z''"
  by (simp add: expectedOwnerAndAmount_def oracleAmount_def helix0_def changed0_def
      processOwnershipChanged_def verifyWithOracle_def oneHelixOracle_def settle0_def)

text \<open>
  The owner half of the check is made: when the oracle returns no record owned by the
  destination account, the outcome is a reconciliation failure.
\<close>

lemma owner_not_found_is_failure:
  assumes "revealGenomes \<lparr> ovr_who = och_to event, ovr_limit = ''1000'',
                            ovr_sort_by = ''last_updated'', ovr_sort_order = ''DESC'' \<rparr> = Inr response"
    and "\<not> list_ex (\<lambda>helix. current_owner_id helix = och_to event) (OracleHelices response)"
  shows "processOwnershipChanged revealGenomes settle event now =
           ReconciliationFailure event (Error ''Oracle verification failed: Owner not found in oracle'')"
  using assms by (simp add: processOwnershipChanged_def verifyWithOracle_def Let_def)

lemma owner_not_found_example:
  "processOwnershipChanged emptyOracle settle0 changed0 ''2025-01-01T00:00:05.000Z'' =
     ReconciliationFailure changed0 (Error ''Oracle verification failed: Owner not found in oracle'')"
  by (simp add: processOwnershipChanged_def verifyWithOracle_def emptyOracle_def)

section \<open>Validator: the checks and the choice of backend\<close>

text \<open>The rounding at the numbers of the examples.\<close>

lemma binary64_examples:
  "binary64 0 = 0"
  "binary64 1000 = 1000"
  "binary64 (1000 * 1) = 1000"
  "binary64 (1000 - 1000) = 0"
  "0 < binary64 (1 / 100)"
  "binary64 1000000 = 1000000"
  "binary64 1000000000 = 1000000000"
  "binary64 (1000000000 / 1000000) = 1000"
  by code_simp+

text \<open>
  The arithmetic rounds as the machine does: 0.1 is not a tenth, three times 0.1 is not
  the number 300000 / 1000000, and a price of 1000.01 is less than 0.01 away from 1000.
\<close>

lemma binary64_rounds:
  "binary64 (1 / 10) = 3602879701896397 / 36028797018963968"
  "d_times binary64Ops 3 (binary64 (1 / 10)) \<noteq> normalizeAmount binary64Ops 300000"
  "amountCheckNOW binary64Ops (payment0\<lparr> price_amount := binary64 (100001 / 100) \<rparr>) 1000"
  by (code_simp, code_simp, code_simp)

text \<open>
  The result of a verification is valid exactly when every check of the backend that
  answered holds; the TRON verifier also checks the sender and the recipient.
\<close>

lemma valid_iff_backend_checks:
  "(fetchP paymentId = Inr payment \<longrightarrow>
      map_sum id vr_valid (verifyPayment ops fetchP window paymentId expectedAmount) =
        Inr (payment_status payment = ''finished''
             \<and> amountCheckNOW ops payment expectedAmount
             \<and> price_currency payment = ''USDT''
             \<and> getConfirmationsNOW payment \<ge> 12
             \<and> window (created_at payment)))
   \<and> (fetchT txHash = Inr tx \<longrightarrow> tx_contract tx = transfer # others
        \<longrightarrow> tx_ret tx = contractRet # rets \<longrightarrow> currentBlock = Inr blockNumber \<longrightarrow>
      map_sum id vr_valid
        (verifyTransaction ops fetchT currentBlock window txHash fromAddress toAddress expectedAmount) =
        Inr (trc_contract transfer = USDT_CONTRACT
             \<and> trc_from transfer = fromAddress
             \<and> trc_to transfer = toAddress
             \<and> amountCheckTRON ops transfer expectedAmount
             \<and> blockNumber - tx_blockNumber tx \<ge> 12
             \<and> contractRet = ''SUCCESS''
             \<and> window (tx_block_timestamp tx)))"
  by (simp add: verifyPayment_def verifyTransaction_def decodeTRC20Transfer_def
      getConfirmationsTRON_def everyCheck_def Let_def)

lemma tron_examples:
  "map_sum id vr_valid
     (verifyTransaction binary64Ops (\<lambda>h. Inr tx0) (Inr 520) fresh0 hash0
        ''TPayerAddress'' ''TMarketplaceAddress'' 1000) = Inr True"
  "map_sum id vr_valid
     (verifyTransaction binary64Ops (\<lambda>h. Inr tx0) (Inr 503) fresh0 hash0
        ''TPayerAddress'' ''TMarketplaceAddress'' 1000) = Inr False"
  "map_sum id vr_valid
     (verifyTransaction binary64Ops (\<lambda>h. Inr tx0) (Inr 520) fresh0 hash0
        ''TSomeoneElse'' ''TMarketplaceAddress'' 1000) = Inr False"
  by (simp_all add: verifyTransaction_def decodeTRC20Transfer_def getConfirmationsTRON_def
      everyCheck_def amountCheckTRON_def normalizeAmount_def binary64Ops_def binary64_examples
      tx0_def transfer0_def fresh0_def USDT_CONTRACT_def)

lemma npmt_abc123: "isNOWPaymentId ''npmt_abc123''"
  by code_simp

text \<open>
  C5. The result of a verification has \<open>valid = true\<close> only when all five predicates
  hold, among them that the actual confirmed amount is within a small relative tolerance
  of the expected amount.  The code does not keep this: the processor path compares the
  quoted price, not the amount paid, so a finished payment quoted at the expected 1000
  USDT of which nothing was paid is valid, and the request is validated with an evidence
  amount of 0.
\<close>

theorem verifier_accepts_unpaid_payment:
  "\<not> fivePredicatesNOW (1 / 1000) fresh0 unpaid0 1000
   \<and> map_sum id vr_valid
        (verifyPayment binary64Ops (\<lambda>p. Inr unpaid0) fresh0 ''npmt_abc123'' 1000) = Inr True
   \<and> validatePaymentProof envUnpaid paid0 ''2025-01-01T00:00:00.000Z''
       = Validated ''evt-1'' BUY
           \<lparr> ev_proof = ''npmt_abc123'', ev_network = TRON, ev_confirmations = 15,
             ev_amount_usdt = 0 \<rparr>
           ''2025-01-01T00:00:00.000Z''"
  by (simp add: fivePredicatesNOW_def withinRelativeTolerance_def unpaid0_def payment0_def
      fresh0_def verifyPayment_def amountCheckNOW_def getConfirmationsNOW_def everyCheck_def
      detectNetwork_def binary64Ops_def binary64_examples validatePaymentProof_def paid0_def
      selectAndVerify_def npmt_abc123 envUnpaid_def envDown_def)

text \<open>
  C7. When the primary backend for a proof errors or times out and a secondary backend
  is configured, the verification is retried there and the caller receives a
  verification result.  The code does not keep this: the processor backend times out on
  a processor payment id, the TRON backend is configured and answers, and the caller
  receives the failure \<^verbatim>\<open>verification.error\<close>.
\<close>

theorem verifier_primary_error_no_fallback:
  "validatePaymentProof envDown paid0 ''2025-01-01T00:00:00.000Z''
     = PaymentFailed ''evt-1'' ''verification.error''"
  by (simp add: validatePaymentProof_def paid0_def selectAndVerify_def npmt_abc123 envDown_def
      verifyPayment_def)

text \<open>
  The dual-path validator of the build plan does fall back: when its first backend
  errors, or answers with a result that is not valid, the caller receives the answer of
  the second.
\<close>

lemma dual_path_falls_back:
  "verifyWithMoralis proof chain amount = Inl err \<Longrightarrow>
     VerifyPayment verifyWithMoralis verifyWithNOWPayments proof chain amount
       = verifyWithNOWPayments proof amount"
  "verifyWithMoralis proof chain amount = Inr result \<Longrightarrow> \<not> vr_valid result \<Longrightarrow>
     VerifyPayment verifyWithMoralis verifyWithNOWPayments proof chain amount
       = verifyWithNOWPayments proof amount"
  by (simp_all add: VerifyPayment_def)

section \<open>Listings: the available amount\<close>

lemma heldAmount_nonneg:
  "list_all (\<lambda>r. 0 \<le> mr_amount r) rs \<Longrightarrow> 0 \<le> heldAmount rs"
  by (induction rs) (auto simp: heldAmount_def)

lemma selected_sum_nonneg:
  "list_all (\<lambda>r. 0 \<le> mr_amount r) rs \<Longrightarrow> 0 \<le> sum_list (map mr_amount (filter P rs))"
  by (induction rs) auto

text \<open>What a release returns to the listing is what leaves the held amount.\<close>

lemma heldAmount_release:
  "heldAmount (map (\<lambda>r. if lapsed mid now r then r\<lparr> mr_status := EXPIRED \<rparr> else r) rs)
     + sum_list (map mr_amount (filter (lapsed mid now) rs)) = heldAmount rs"
  by (induction rs) (auto simp: heldAmount_def lapsed_def)

lemma heldAmount_confirm:
  "heldAmount (map (\<lambda>r. if confirmable mid now r then r\<lparr> mr_status := CONFIRMED \<rparr> else r) rs)
     = heldAmount rs"
  by (induction rs) (auto simp: heldAmount_def confirmable_def)

lemma amounts_nonneg_map_status:
  "list_all (\<lambda>r. 0 \<le> mr_amount r) (map (\<lambda>r. if P r then r\<lparr> mr_status := s \<rparr> else r) rs)
     = list_all (\<lambda>r. 0 \<le> mr_amount r) rs"
  by (induction rs) auto

lemma heldAmount_append:
  "heldAmount (rs @ [r]) = heldAmount rs + (if mr_status r \<noteq> EXPIRED then mr_amount r else 0)"
  by (simp add: heldAmount_def)

lemma newListing_invariant:
  "newListing minAmount event priceUsdt uuid now = Inr book \<Longrightarrow> 0 \<le> minAmount \<Longrightarrow> bookInvariant book"
  by (auto simp: newListing_def bookInvariant_def heldAmount_def split: if_splits)

lemma reserve_invariant:
  assumes "bookInvariant book" and "0 < moc_amount event"
    and "reserveAgainstListing allowPartialFills book event uuid now = Inr book'"
  shows "bookInvariant book'
     \<and> l_availableAmount (lb_listing book') \<le> l_availableAmount (lb_listing book)
     \<and> l_amount (lb_listing book') = l_amount (lb_listing book)"
  using assms
  by (auto simp: reserveAgainstListing_def bookInvariant_def Let_def heldAmount_append min_def
      split: if_splits)

lemma release_invariant:
  assumes "bookInvariant book"
  shows "bookInvariant (releaseExpired book mid now)
     \<and> l_availableAmount (lb_listing book) \<le> l_availableAmount (lb_listing (releaseExpired book mid now))
     \<and> l_amount (lb_listing (releaseExpired book mid now)) = l_amount (lb_listing book)"
proof -
  let ?rs = "lb_reservations book"
  have nn: "list_all (\<lambda>r. 0 \<le> mr_amount r) ?rs"
    using assms by (simp add: bookInvariant_def)
  have returned: "0 \<le> sum_list (map mr_amount (filter (lapsed mid now) ?rs))"
    by (rule selected_sum_nonneg [OF nn])
  have held: "heldAmount (map (\<lambda>r. if lapsed mid now r then r\<lparr> mr_status := EXPIRED \<rparr> else r) ?rs)
     + sum_list (map mr_amount (filter (lapsed mid now) ?rs)) = heldAmount ?rs"
    by (rule heldAmount_release)
  from assms nn returned held show ?thesis
    by (simp add: releaseExpired_def bookInvariant_def amounts_nonneg_map_status)
qed

lemma confirm_invariant:
  assumes "bookInvariant book"
  shows "bookInvariant (confirmFill book mid now)
     \<and> lb_listing (confirmFill book mid now) = lb_listing book"
  using assms
  by (simp add: confirmFill_def bookInvariant_def heldAmount_confirm amounts_nonneg_map_status)

lemma applyOp_invariant:
  assumes "bookInvariant book" and "positiveRequest op"
  shows "bookInvariant (applyOp book op)
     \<and> l_amount (lb_listing (applyOp book op)) = l_amount (lb_listing book)
     \<and> (if isRelease op
        then l_availableAmount (lb_listing book) \<le> l_availableAmount (lb_listing (applyOp book op))
        else l_availableAmount (lb_listing (applyOp book op)) \<le> l_availableAmount (lb_listing book))"
proof (cases op)
  case (Reserve allowPartialFills event uuid now)
  show ?thesis
  proof (cases "reserveAgainstListing allowPartialFills book event uuid now")
    case (Inl e)
    with Reserve assms show ?thesis by simp
  next
    case (Inr book')
    with Reserve assms reserve_invariant [OF assms(1) _ Inr] show ?thesis by simp
  qed
next
  case (ReleaseExpired mid now)
  with release_invariant [OF assms(1), of mid now] show ?thesis by simp
next
  case (ConfirmFill mid now)
  with confirm_invariant [OF assms(1), of mid now] show ?thesis by simp
qed

lemma runOps_invariant:
  "bookInvariant book \<Longrightarrow> list_all positiveRequest ops \<Longrightarrow>
     bookInvariant (runOps book ops) \<and> l_amount (lb_listing (runOps book ops)) = l_amount (lb_listing book)"
proof (induction ops arbitrary: book)
  case Nil
  then show ?case by simp
next
  case (Cons op ops)
  from Cons.prems have inv: "bookInvariant (applyOp book op)"
    and same: "l_amount (lb_listing (applyOp book op)) = l_amount (lb_listing book)"
    using applyOp_invariant [of book op] by simp_all
  from Cons.IH [OF inv] Cons.prems same show ?case by simp
qed

lemma invariant_bounds:
  assumes "bookInvariant book"
  shows "0 \<le> l_availableAmount (lb_listing book)
     \<and> l_availableAmount (lb_listing book) \<le> l_amount (lb_listing book)"
proof -
  have "0 \<le> heldAmount (lb_reservations book)"
    using assms by (simp add: bookInvariant_def heldAmount_nonneg)
  with assms show ?thesis by (simp add: bookInvariant_def)
qed

text \<open>A release and the reservation it undoes compose to no change of the available amount.\<close>

lemma reserve_then_release_net_zero:
  "l_availableAmount (lb_listing
      (runOps book0 [Reserve False (buy0 2500) ''m-1'' 1000, ReleaseExpired ''m-1'' 400000,
                     ReleaseExpired ''m-1'' 500000]))
     = l_availableAmount (lb_listing book0)"
  by (simp add: book0_def buy0_def reserveAgainstListing_def releaseExpired_def lapsed_def Let_def)

text \<open>The scenario of the specification: 2500 asked of 2000 available, partial fills disallowed.\<close>

lemma listing_insufficient_scenario:
  "reserveAgainstListing False
     (book0\<lparr> lb_listing := (lb_listing book0)\<lparr> l_availableAmount := 2000 \<rparr> \<rparr>)
     (buy0 2500) ''m-1'' 1000 = Inl ListingInsufficient"
  by (simp add: book0_def buy0_def reserveAgainstListing_def Let_def)

text \<open>
  C3. For every listing and after every operation of the Matching Service on it
  (creation of a reservation, release of an expired reservation, confirmation of a
  fill), the available amount is not negative and does not exceed the total amount of
  the listing, and every operation leaves it equal or lower, except the release of an
  expired reservation, which leaves it equal or higher.
\<close>

theorem listing_available_amount_bounds:
  assumes "newListing minAmount sell priceUsdt lid created = Inr book"
    and "0 \<le> minAmount" and "list_all positiveRequest ops" and "positiveRequest op"
  shows "0 \<le> l_availableAmount (lb_listing (runOps book ops))
     \<and> l_availableAmount (lb_listing (runOps book ops)) \<le> l_amount (lb_listing (runOps book ops))
     \<and> l_amount (lb_listing (runOps book ops)) = moc_amount sell
     \<and> (if isRelease op
        then l_availableAmount (lb_listing (runOps book ops))
               \<le> l_availableAmount (lb_listing (applyOp (runOps book ops) op))
        else l_availableAmount (lb_listing (applyOp (runOps book ops) op))
               \<le> l_availableAmount (lb_listing (runOps book ops)))"
proof -
  have inv0: "bookInvariant book"
    using assms(1,2) by (rule newListing_invariant)
  have total0: "l_amount (lb_listing book) = moc_amount sell"
    using assms(1) by (auto simp: newListing_def split: if_splits)
  from runOps_invariant [OF inv0 assms(3)]
  have inv: "bookInvariant (runOps book ops)"
    and total: "l_amount (lb_listing (runOps book ops)) = l_amount (lb_listing book)"
    by simp_all
  from invariant_bounds [OF inv] applyOp_invariant [OF inv assms(4)] total total0
  show ?thesis by simp
qed

text \<open>
  Witness of C3: a listing of 10000; two reservations of 2500, of which the first is
  confirmed and the second expires and is released, leave 7500 available; a purchase of
  9000 with partial fills allowed then takes the 7500 that are left.
\<close>

theorem listing_available_amount_bounds_witness:
  "newListing 5000 sell0 1 ''l-1'' 0 = Inr book0
   \<and> (0::number) \<le> 5000
   \<and> list_all positiveRequest ops0
   \<and> positiveRequest (Reserve True (buy0 9000) ''m-3'' 500000)
   \<and> l_availableAmount (lb_listing (runOps book0 ops0)) = 7500
   \<and> l_amount (lb_listing (runOps book0 ops0)) = 10000
   \<and> l_availableAmount (lb_listing (applyOp (runOps book0 ops0) (Reserve True (buy0 9000) ''m-3'' 500000))) = 0"
proof -
  have a: "newListing 5000 sell0 1 ''l-1'' 0 = Inr book0"
    by (simp add: newListing_def sell0_def book0_def)
  have b: "(0::number) \<le> 5000"
    by simp
  have c: "list_all positiveRequest ops0"
    by (simp add: ops0_def buy0_def)
  have d: "positiveRequest (Reserve True (buy0 9000) ''m-3'' 500000)"
    by (simp add: buy0_def)
  have e: "runOps book0 ops0 =
     \<lparr> lb_listing = (lb_listing book0)\<lparr> l_availableAmount := 7500 \<rparr>,
       lb_reservations =
         [\<lparr> mr_matchId = ''m-1'', mr_eventId = ''evt-3'', mr_buyerId = ''buyer-1'',
            mr_sellerId = ''seller-1'', mr_amount = 2500, mr_listingId = Some ''l-1'',
            mr_status = CONFIRMED, mr_createdAt = 1000, mr_expiresAt = 301000 \<rparr>,
          \<lparr> mr_matchId = ''m-2'', mr_eventId = ''evt-3'', mr_buyerId = ''buyer-1'',
            mr_sellerId = ''seller-1'', mr_amount = 2500, mr_listingId = Some ''l-1'',
            mr_status = EXPIRED, mr_createdAt = 2000, mr_expiresAt = 302000 \<rparr>] \<rparr>"
    by (simp add: ops0_def book0_def buy0_def reserveAgainstListing_def releaseExpired_def
        confirmFill_def lapsed_def confirmable_def Let_def)
  have f: "l_availableAmount (lb_listing
             (applyOp (runOps book0 ops0) (Reserve True (buy0 9000) ''m-3'' 500000))) = 0"
    unfolding e by (simp add: book0_def buy0_def reserveAgainstListing_def Let_def)
  from listing_available_amount_bounds [OF a b c d] a b c d e f
  show ?thesis by (simp add: sell0_def)
qed

end
